theory Spec2Isabelle
  imports Main "HOL-Library.Word"
begin

unbundle bit_operations_syntax

section \<open>Machine types\<close>

text \<open>
  \<^verbatim>\<open>unsigned char\<close> is an 8-bit word, \<^verbatim>\<open>unsigned\<close> a 32-bit word. An \<^verbatim>\<open>unsigned char\<close>
  operand of a shift is promoted to \<^verbatim>\<open>int\<close>; every value that arises from a byte by the
  shifts of the decoder (at most two places to the left) is below \<open>2 ^ 10\<close>, so that the
  promoted value and its conversion to \<^verbatim>\<open>unsigned\<close> are the zero extension \<open>ucast\<close>.
\<close>

type_synonym u8 = "8 word"
type_synonym u32 = "32 word"

section \<open>The access condition decoder (main.c, lines 166 to 228)\<close>

text \<open>
  Lines 169 to 174: sectors 32 to 39 of a 4k card use one access condition for a cluster
  of five blocks, so the block number is divided by 5 (unsigned division) before the
  \<^verbatim>\<open>switch\<close>.
\<close>

definition slot_index :: "u32 \<Rightarrow> u32 \<Rightarrow> u32" where
  "slot_index sector block = (if sector \<ge> 32 then block div 5 else block)"

text \<open>
  Lines 180 to 220: the \<^verbatim>\<open>switch\<close> on the (reduced) block number. Each case assigns the
  two locals \<^verbatim>\<open>bits\<close> and \<^verbatim>\<open>inverted\<close>; the \<^verbatim>\<open>default\<close> case returns \<open>-1\<close> at once,
  which is \<open>None\<close> here. \<open>access_bits\<close> is the view of the four access bytes of the
  sector trailer, \<open>access_bits ! i\<close> is \<^verbatim>\<open>access_bits[i]\<close>.
\<close>

definition slot_bits :: "u32 \<Rightarrow> u8 list \<Rightarrow> (u32 \<times> u32) option" where
  "slot_bits block access_bits =
    (let b0 = (ucast (access_bits ! 0) :: u32);
         b1 = (ucast (access_bits ! 1) :: u32);
         b2 = (ucast (access_bits ! 2) :: u32)
     in
     if block = 0 then
       Some ((drop_bit 2 b1 AND 0x04) OR (push_bit 1 b2 AND 0x02) OR (drop_bit 4 b2 AND 0x01),
             (push_bit 2 b0 AND 0x04) OR (drop_bit 3 b0 AND 0x02) OR (drop_bit 0 b1 AND 0x01))
     else if block = 1 then
       Some ((drop_bit 3 b1 AND 0x04) OR (push_bit 0 b2 AND 0x02) OR (drop_bit 5 b2 AND 0x01),
             (push_bit 1 b0 AND 0x04) OR (drop_bit 4 b0 AND 0x02) OR (drop_bit 1 b1 AND 0x01))
     else if block = 2 then
       Some ((drop_bit 4 b1 AND 0x04) OR (drop_bit 1 b2 AND 0x02) OR (drop_bit 6 b2 AND 0x01),
             (push_bit 0 b0 AND 0x04) OR (drop_bit 5 b0 AND 0x02) OR (drop_bit 2 b1 AND 0x01))
     else if block = 3 then
       Some ((drop_bit 5 b1 AND 0x04) OR (drop_bit 2 b2 AND 0x02) OR (drop_bit 7 b2 AND 0x01),
             (drop_bit 1 b0 AND 0x04) OR (drop_bit 6 b0 AND 0x02) OR (drop_bit 3 b1 AND 0x01))
     else None)"

text \<open>
  The whole function. Lines 222 to 227: the redundancy check on the two locals, and the
  conversion of \<^verbatim>\<open>bits\<close> to the \<^verbatim>\<open>int\<close> that is returned.
\<close>

definition get_access_condition :: "u32 \<Rightarrow> u32 \<Rightarrow> u8 list \<Rightarrow> int" where
  "get_access_condition sector block access_bits =
    (case slot_bits (slot_index sector block) access_bits of
       None \<Rightarrow> - 1
     | Some (bits, inverted) \<Rightarrow>
         if bits \<noteq> (NOT inverted) AND 0x07 then - 1 else sint bits)"

section \<open>The bit positions of the access bytes\<close>

text \<open>
  The comments of lines 178 to 215 name the bit that each line of the \<^verbatim>\<open>switch\<close> extracts:
  \<^verbatim>\<open>C1x\<close>, \<^verbatim>\<open>C2x\<close>, \<^verbatim>\<open>C3x\<close> are the access bits of block \<open>x\<close> and \<^verbatim>\<open>/C1x\<close>, \<^verbatim>\<open>/C2x\<close>,
  \<^verbatim>\<open>/C3x\<close> their inverted copies. In the layout of a Mifare sector trailer, byte 0 holds
  \<^verbatim>\<open>/C2\<close> (high nibble) and \<^verbatim>\<open>/C1\<close> (low nibble), byte 1 holds \<^verbatim>\<open>C1\<close> and \<^verbatim>\<open>/C3\<close>, byte 2 holds
  \<^verbatim>\<open>C3\<close> and \<^verbatim>\<open>C2\<close>, each nibble with the bit of block \<open>x\<close> at its position \<open>x\<close>. The
  theorems below state what the decoder computes in terms of these positions.
\<close>

definition C1_bit :: "nat \<Rightarrow> u8 list \<Rightarrow> bool" where
  "C1_bit x ab = bit (ab ! 1) (4 + x)"

definition C2_bit :: "nat \<Rightarrow> u8 list \<Rightarrow> bool" where
  "C2_bit x ab = bit (ab ! 2) x"

definition C3_bit :: "nat \<Rightarrow> u8 list \<Rightarrow> bool" where
  "C3_bit x ab = bit (ab ! 2) (4 + x)"

definition inv_C1_bit :: "nat \<Rightarrow> u8 list \<Rightarrow> bool" where
  "inv_C1_bit x ab = bit (ab ! 0) x"

definition inv_C2_bit :: "nat \<Rightarrow> u8 list \<Rightarrow> bool" where
  "inv_C2_bit x ab = bit (ab ! 0) (4 + x)"

definition inv_C3_bit :: "nat \<Rightarrow> u8 list \<Rightarrow> bool" where
  "inv_C3_bit x ab = bit (ab ! 1) x"

text \<open>The value of three bits, the first one the most significant.\<close>

definition three_bits :: "bool \<Rightarrow> bool \<Rightarrow> bool \<Rightarrow> int" where
  "three_bits a b c = 4 * of_bool a + 2 * of_bool b + of_bool c"

text \<open>The same value as the decoder builds it, one masked bit \<^verbatim>\<open>|\<close> the next.\<close>

definition w3 :: "bool \<Rightarrow> bool \<Rightarrow> bool \<Rightarrow> u32" where
  "w3 a b c = (if a then 4 else 0) OR (if b then 2 else 0) OR (if c then 1 else 0)"

section \<open>Global tables and colours (main.c, lines 72 to 107)\<close>

definition bit_rep :: "string list" where
  "bit_rep = [''000'', ''001'', ''010'', ''011'', ''100'', ''101'', ''110'', ''111'']"

definition permission_trailer :: "string list" where
  "permission_trailer =
    [''- A | A   - | A A'',
     ''- A | A   A | A A [transport]'',
     ''- - | A   - | A -'',
     ''- B | A/B B | - B'',
     ''- B | A/B - | - B'',
     ''- - | A/B B | - -'',
     ''- - | A/B - | - -'',
     ''- - | A/B - | - -'']"

definition permission_data :: "string list" where
  "permission_data =
    [''A/B | A/B   | A/B | A/B [transport]'',
     ''A/B |  -    |  -  | A/B [value]'',
     ''A/B |  -    |  -  |  -  [r/w]'',
     ''  B |   B   |  -  |  -  [r/w]'',
     ''A/B |   B   |  -  |  -  [r/w]'',
     ''  B |  -    |  -  |  -  [r/w]'',
     ''A/B |   B   |   B | A/B [value]'',
     '' -  |  -    |  -  |  -  [r/w]'']"

definition empty_string :: string where
  "empty_string = []"

text \<open>
  The five colour strings are globals: \<^verbatim>\<open>main\<close> leaves them at their ANSI escape
  sequences (lines 103 to 107) or replaces all of them by the empty string (lines 507 to
  516) before it calls \<^verbatim>\<open>print_info\<close>. Here they are a parameter of \<open>print_info\<close>.
\<close>

record colors =
  color_keyB :: string
  color_keyA :: string
  color_access :: string
  color_warning :: string
  color_default :: string

definition ansi_colors :: colors where
  "ansi_colors =
    \<lparr>color_keyB = CHR 0x1B # ''[0;34m'',
     color_keyA = CHR 0x1B # ''[0;31m'',
     color_access = CHR 0x1B # ''[0;32m'',
     color_warning = CHR 0x1B # ''[1;93m'',
     color_default = CHR 0x1B # ''[0m''\<rparr>"

definition no_colors :: colors where
  "no_colors =
    \<lparr>color_keyB = empty_string,
     color_keyA = empty_string,
     color_access = empty_string,
     color_warning = empty_string,
     color_default = empty_string\<rparr>"

section \<open>Number formats of \<^verbatim>\<open>printf\<close>\<close>

text \<open>\<^verbatim>\<open>%02x\<close> of a byte: two lower-case hexadecimal digits.\<close>

definition hex_digit :: "nat \<Rightarrow> char" where
  "hex_digit n = ''0123456789abcdef'' ! n"

definition hex2 :: "u8 \<Rightarrow> string" where
  "hex2 b = [hex_digit (unat b div 16), hex_digit (unat b mod 16)]"

text \<open>\<^verbatim>\<open>%u\<close>, and \<^verbatim>\<open>%d\<close> of a number that is not negative: the decimal digits.\<close>

fun dec :: "nat \<Rightarrow> string" where
  "dec n = (if n < 10 then [''0123456789'' ! n] else dec (n div 10) @ [''0123456789'' ! (n mod 10)])"

declare dec.simps [simp del]

text \<open>Reading a decimal numeral back: the number that a string of digits denotes.\<close>

definition digit_value :: "char \<Rightarrow> nat" where
  "digit_value ch = of_char ch - 48"

definition undec :: "string \<Rightarrow> nat" where
  "undec s = foldl (\<lambda>a ch. 10 * a + digit_value ch) 0 s"

section \<open>The report (main.c, lines 233 to 416)\<close>

text \<open>
  A row of the table: the six arguments of the \<^verbatim>\<open>printf\<close> of line 407, in its order.
  The column padding of that format string is left to the rendering.
\<close>

record row =
  str_sector :: string
  block_no :: nat
  str_data_hex :: string
  str_access_bits :: string
  str_permissions :: string
  str_data_ascii :: string

text \<open>What one \<^verbatim>\<open>printf\<close> writes to the standard output: a text, or a row.\<close>

datatype out_item = Text string | Row row

text \<open>
  The outcome of \<^verbatim>\<open>print_info\<close>: the value returned, what was written to the standard
  output, and what was written to the standard error.
\<close>

record result =
  ret :: int
  stdout :: "out_item list"
  stderr :: string

definition EXIT_FAILURE :: int where
  "EXIT_FAILURE = 1"

text \<open>
  Lines 236 to 241: the buffer of 4097 bytes is cleared, then \<^verbatim>\<open>fread\<close> copies at most
  4097 bytes of the stream into it and returns how many. \<open>input\<close> is the content of the
  stream.
\<close>

definition read_data :: "u8 list \<Rightarrow> u8 list" where
  "read_data input = take 4097 input @ replicate (4097 - length input) 0"

text \<open>Lines 241 to 246: the size read, overwritten by 1024 when \<^verbatim>\<open>-1\<close> was given.\<close>

definition data_size_of :: "bool \<Rightarrow> u8 list \<Rightarrow> nat" where
  "data_size_of force_1k input = (if force_1k then 1024 else min (length input) 4097)"

text \<open>Lines 248 to 266: the \<^verbatim>\<open>switch\<close> on the size; \<open>None\<close> is its \<^verbatim>\<open>default\<close> case.\<close>

definition resolve_sectors :: "nat \<Rightarrow> nat option" where
  "resolve_sectors data_size =
    (if data_size = 320 then Some 5
     else if data_size = 1024 then Some 16
     else if data_size = 2048 then Some 32
     else if data_size = 4096 then Some (32 + 8)
     else None)"

definition wrong_size_message :: "nat \<Rightarrow> string" where
  "wrong_size_message data_size =
    ''Wrong file size: '' @ dec data_size @ '' bytes.'' @ [CHR 0x0A] @
    ''Only 320, 1024, 2048 or 4096 bytes is allowed.''"

text \<open>
  Lines 293 to 316: the locals of the loop over the sectors. The three pointers into the
  buffer are the views of 6, 6 and 4 bytes that the loop body reads through them. The sector
  number stays below 40, so that no product wraps around.
\<close>

record sector_vars =
  blocks :: nat
  block_size :: nat
  sector_size :: nat
  sector_start :: nat
  keyA :: "u8 list"
  keyB :: "u8 list"
  access_bits :: "u8 list"

definition sector_layout :: "u8 list \<Rightarrow> nat \<Rightarrow> sector_vars" where
  "sector_layout data sector =
    (let blocks = (if sector < 32 then 4 else 16);
         block_size = 16;
         sector_size = block_size * blocks;
         sector_start = (if sector < 32 then sector * sector_size
                         else 2048 + (sector - 32) * sector_size)
     in \<lparr>blocks = blocks, block_size = block_size, sector_size = sector_size,
         sector_start = sector_start,
         keyA = take 6 (drop (sector_start + sector_size - block_size + 0) data),
         keyB = take 6 (drop (sector_start + sector_size - block_size + 10) data),
         access_bits = take 4 (drop (sector_start + sector_size - block_size + 6) data)\<rparr>)"

text \<open>Lines 321 to 409: the body of the loop over the blocks of a sector.\<close>

definition block_row :: "colors \<Rightarrow> u8 list \<Rightarrow> nat \<Rightarrow> sector_vars \<Rightarrow> nat \<Rightarrow> row" where
  "block_row c data sector v block =
    (let block_start = sector_start v + block * block_size v;
         access_condition =
           get_access_condition (word_of_nat sector) (word_of_nat block) (access_bits v);
         sect = (if block = 1 then dec sector else empty_string);
         data_hex =
           (if block = blocks v - 1
            then color_keyA c @ concat (map hex2 (keyA v)) @
                 color_access c @ concat (map hex2 (access_bits v)) @
                 color_keyB c @ concat (map hex2 (keyB v)) @ color_default c
            else concat (map (\<lambda>i. hex2 (data ! (block_start + i))) [0..<block_size v]));
         shown = color_access c @ bit_rep ! nat access_condition @ color_default c;
         (acc, perm) =
           (if access_condition < 0 \<or> access_condition > 7
            then (color_warning c @ ''ERR'' @ color_default c, empty_string)
            else if block = 0 \<and> sector = 0 then (shown, ''-'')
            else if block = blocks v - 1 then (shown, permission_trailer ! nat access_condition)
            else (shown, permission_data ! nat access_condition))
     in \<lparr>str_sector = sect, block_no = block, str_data_hex = data_hex,
         str_access_bits = acc, str_permissions = perm, str_data_ascii = []\<rparr>)"

definition separator :: out_item where
  "separator = Text (replicate 100 CHR ''='' @ [CHR 0x0A])"

text \<open>Lines 319 to 411: the loop over the blocks of a sector, one row each.\<close>

definition sector_rows :: "colors \<Rightarrow> u8 list \<Rightarrow> nat \<Rightarrow> row list" where
  "sector_rows c data sector =
    (let v = sector_layout data sector
     in map (block_row c data sector v) [0..<blocks v])"

text \<open>Lines 291 to 412: one round of the loop over the sectors.\<close>

definition sector_out :: "colors \<Rightarrow> u8 list \<Rightarrow> nat \<Rightarrow> out_item list" where
  "sector_out c data sector = separator # map Row (sector_rows c data sector)"

text \<open>Lines 268 to 290: the lines above the table.\<close>

definition header :: "colors \<Rightarrow> u8 list \<Rightarrow> nat \<Rightarrow> nat \<Rightarrow> out_item list" where
  "header c data data_size sectors =
    [Text (''File size: '' @ dec data_size @ '' bytes. Expected '' @ dec sectors @
           '' sectors'' @ [CHR 0x0A]),
     Text ([CHR 0x09] @ ''UID: '' @ hex2 (data ! 0) @ hex2 (data ! 1) @ hex2 (data ! 2) @
           hex2 (data ! 3) @ [CHR 0x0A]),
     Text ([CHR 0x09] @ ''BCC:  '' @ hex2 (data ! 4) @ [CHR 0x0A]),
     Text ([CHR 0x09] @ ''SAK:  '' @ hex2 (data ! 5) @ [CHR 0x0A]),
     Text ([CHR 0x09] @ ''ATQA: '' @ hex2 (data ! 6) @ hex2 (data ! 7) @ [CHR 0x0A]),
     separator,
     Text (''| Sect | Blck |            Data                  | Access |  r  |  w    |  i  | d/t/r [info]       |'' @ [CHR 0x0A]),
     Text (''|      |      |                                  |  cond. |   A | Acc.  | B                        |'' @ [CHR 0x0A]),
     Text (''|      |      | '' @ color_keyA c @ ''Key A'' @ color_default c @ ''      '' @
           color_access c @ ''Access Bits'' @ color_default c @ ''     '' @
           color_keyB c @ ''Key B'' @ color_default c @
           '' |        | r w | r   w | r w                      |'' @ [CHR 0x0A])]"

definition print_info :: "bool \<Rightarrow> colors \<Rightarrow> u8 list \<Rightarrow> result" where
  "print_info force_1k c input =
    (let data = read_data input;
         data_size = data_size_of force_1k input
     in case resolve_sectors data_size of
          None \<Rightarrow>
            \<lparr>ret = EXIT_FAILURE, stdout = [], stderr = wrong_size_message data_size\<rparr>
        | Some sectors \<Rightarrow>
            \<lparr>ret = 0,
             stdout = header c data data_size sectors @
                      concat (map (sector_out c data) [0..<sectors]) @ [separator],
             stderr = []\<rparr>)"

text \<open>The rows among the items written, in the order in which they were written.\<close>

fun rows_of :: "out_item list \<Rightarrow> row list" where
  "rows_of [] = []"
| "rows_of (Text t # xs) = rows_of xs"
| "rows_of (Row r # xs) = r # rows_of xs"

text \<open>
  The position of the row of block \<open>block\<close> of sector \<open>sector\<close> among the rows of a report:
  the sectors below 32 have 4 rows each, the sectors from 32 on have 16.
\<close>

definition row_index :: "nat \<Rightarrow> nat \<Rightarrow> nat" where
  "row_index sector block =
     (if sector \<le> 32 then 4 * sector else 128 + 16 * (sector - 32)) + block"

text \<open>
  Two buffers agree on a sector when they have the same length and the same bytes from
  the start of the sector to its end.
\<close>

definition agree_on_sector :: "u8 list \<Rightarrow> u8 list \<Rightarrow> nat \<Rightarrow> bool" where
  "agree_on_sector data data' s \<longleftrightarrow>
     length data = length data' \<and>
     (\<forall>i \<in> {sector_start (sector_layout data s) ..<
              sector_start (sector_layout data s) + sector_size (sector_layout data s)}.
        data ! i = data' ! i)"

section \<open>Bit masks on words\<close>

lemma and_exp_u32: "(x::u32) AND 2 ^ n = (if bit x n then 2 ^ n else 0)"
  by (rule bit_word_eqI) (auto simp: bit_simps)

lemma and_4_u32: "(x::u32) AND 4 = (if bit x 2 then 4 else 0)"
  using and_exp_u32 [of x 2] by simp

lemma and_2_u32: "(x::u32) AND 2 = (if bit x 1 then 2 else 0)"
  using and_exp_u32 [of x 1] by simp

lemma and_1_u32: "(x::u32) AND 1 = (if bit x 0 then 1 else 0)"
  using and_exp_u32 [of x 0] by simp

lemma bit_drop_ucast: "bit (drop_bit n (ucast (b::u8) :: u32)) k \<longleftrightarrow> bit b (n + k)"
  by (auto simp: bit_simps dest: bit_imp_le_length)

lemma bit_push_ucast:
  "bit (push_bit n (ucast (b::u8) :: u32)) k \<longleftrightarrow> n \<le> k \<and> k < 32 \<and> bit b (k - n)"
  by (auto simp: bit_simps dest: bit_imp_le_length)

lemmas mask_simps = and_4_u32 and_2_u32 and_1_u32 bit_drop_ucast bit_push_ucast

lemma slot_bits_0: "slot_bits 0 ab =
    Some (w3 (bit (ab ! 1) 4) (bit (ab ! 2) 0) (bit (ab ! 2) 4),
          w3 (bit (ab ! 0) 0) (bit (ab ! 0) 4) (bit (ab ! 1) 0))"
  unfolding slot_bits_def Let_def mask_simps w3_def by simp

lemma slot_bits_1: "slot_bits 1 ab =
    Some (w3 (bit (ab ! 1) 5) (bit (ab ! 2) 1) (bit (ab ! 2) 5),
          w3 (bit (ab ! 0) 1) (bit (ab ! 0) 5) (bit (ab ! 1) 1))"
  unfolding slot_bits_def Let_def mask_simps w3_def by simp

lemma slot_bits_2: "slot_bits 2 ab =
    Some (w3 (bit (ab ! 1) 6) (bit (ab ! 2) 2) (bit (ab ! 2) 6),
          w3 (bit (ab ! 0) 2) (bit (ab ! 0) 6) (bit (ab ! 1) 2))"
  unfolding slot_bits_def Let_def mask_simps w3_def by (simp flip: numeral_2_eq_2)

lemma slot_bits_3: "slot_bits 3 ab =
    Some (w3 (bit (ab ! 1) 7) (bit (ab ! 2) 3) (bit (ab ! 2) 7),
          w3 (bit (ab ! 0) 3) (bit (ab ! 0) 7) (bit (ab ! 1) 3))"
  unfolding slot_bits_def Let_def mask_simps w3_def by (simp flip: numeral_2_eq_2)

lemmas pos_defs = C1_bit_def C2_bit_def C3_bit_def inv_C1_bit_def inv_C2_bit_def inv_C3_bit_def

lemma u32_less_4: "(k::u32) < 4 \<Longrightarrow> k = 0 \<or> k = 1 \<or> k = 2 \<or> k = 3"
  by (auto simp: word_less_nat_alt) unat_arith

lemma slot_bits_Some: 
  assumes "k < 4"
  shows "slot_bits k ab =
    Some (w3 (C1_bit (unat k) ab) (C2_bit (unat k) ab) (C3_bit (unat k) ab),
          w3 (inv_C1_bit (unat k) ab) (inv_C2_bit (unat k) ab) (inv_C3_bit (unat k) ab))"
proof -
  consider "k = 0" | "k = 1" | "k = 2" | "k = 3"
    using u32_less_4 [OF assms] by blast
  then show ?thesis
  proof cases
    case 1 then show ?thesis by (simp add: slot_bits_0 pos_defs)
  next
    case 2 then show ?thesis by (simp add: slot_bits_1 pos_defs)
  next
    case 3 then show ?thesis by (simp add: slot_bits_2 pos_defs)
  next
    case 4 then show ?thesis by (simp add: slot_bits_3 pos_defs)
  qed
qed

lemma slot_bits_None: "\<not> k < 4 \<Longrightarrow> slot_bits k ab = None"
  by (auto simp: slot_bits_def Let_def)

lemma w3_check:
  "w3 a b c = NOT (w3 a' b' c') AND 7 \<longleftrightarrow> a \<noteq> a' \<and> b \<noteq> b' \<and> c \<noteq> c'"
  by (cases a; cases b; cases c; cases a'; cases b'; cases c'; simp add: w3_def)

lemma sint_w3: "sint (w3 a b c) = three_bits a b c"
  by (cases a; cases b; cases c; simp add: w3_def three_bits_def)

lemma uint_w3: "uint (w3 a b c) = three_bits a b c"
  by (cases a; cases b; cases c; simp add: w3_def three_bits_def)

lemma three_bits_range: "0 \<le> three_bits a b c \<and> three_bits a b c \<le> 7"
  by (cases a; cases b; cases c; simp add: three_bits_def)

lemma get_access_condition_slot:
  assumes "slot_index sector block = k" and "k < 4"
  shows "get_access_condition sector block ab =
    (if C1_bit (unat k) ab \<noteq> inv_C1_bit (unat k) ab \<and>
        C2_bit (unat k) ab \<noteq> inv_C2_bit (unat k) ab \<and>
        C3_bit (unat k) ab \<noteq> inv_C3_bit (unat k) ab
     then three_bits (C1_bit (unat k) ab) (C2_bit (unat k) ab) (C3_bit (unat k) ab)
     else - 1)"
  using assms by (simp add: get_access_condition_def slot_bits_Some w3_check sint_w3)

lemma get_access_condition_default:
  assumes "\<not> slot_index sector block < 4"
  shows "get_access_condition sector block ab = - 1"
  using assms by (simp add: get_access_condition_def slot_bits_None)

lemma check_cases:
  fixes bits inverted :: u32
  assumes "r = (if bits \<noteq> NOT inverted AND 0x07 then - 1 else uint bits)"
  shows "(r = uint bits \<longleftrightarrow> bits = NOT inverted AND 0x07) \<and>
         (bits \<noteq> NOT inverted AND 0x07 \<longrightarrow> r = - 1)"
proof (cases "bits = NOT inverted AND 0x07")
  case True
  with assms show ?thesis by simp
next
  case False
  have "uint bits \<noteq> - 1"
    using uint_ge_0 [of bits] by linarith
  with False assms show ?thesis by simp
qed

lemma get_access_condition_in_range:
  "get_access_condition sector block ab = - 1 \<or>
   (0 \<le> get_access_condition sector block ab \<and> get_access_condition sector block ab \<le> 7)"
proof (cases "slot_index sector block < 4")
  case True
  show ?thesis
    using get_access_condition_slot [OF refl True, of ab] three_bits_range
    by (simp split: if_splits)
next
  case False
  then show ?thesis by (simp add: get_access_condition_default)
qed

section \<open>The structure of the report\<close>

lemma rows_of_append: "rows_of (xs @ ys) = rows_of xs @ rows_of ys"
  by (induction xs rule: rows_of.induct) simp_all

lemma rows_of_Row_map: "rows_of (map Row rs) = rs"
  by (induction rs) simp_all

lemma rows_of_concat: "rows_of (concat xss) = concat (map rows_of xss)"
  by (induction xss) (simp_all add: rows_of_append)

lemma rows_of_header: "rows_of (header c data n m) = []"
  by (simp add: header_def separator_def)

lemma rows_of_sector_out: "rows_of (sector_out c data s) = sector_rows c data s"
  by (simp add: sector_out_def separator_def rows_of_Row_map)

lemma print_info_ok:
  assumes "resolve_sectors (data_size_of force_1k input) = Some n"
  shows "ret (print_info force_1k c input) = 0"
    and "stderr (print_info force_1k c input) = []"
    and "rows_of (stdout (print_info force_1k c input)) =
           concat (map (sector_rows c (read_data input)) [0..<n])"
  using assms
  by (simp_all add: print_info_def Let_def rows_of_append rows_of_concat rows_of_header
      separator_def comp_def rows_of_sector_out)

lemma print_info_fail:
  assumes "resolve_sectors (data_size_of force_1k input) = None"
  shows "print_info force_1k c input =
    \<lparr>ret = EXIT_FAILURE, stdout = [], stderr = wrong_size_message (data_size_of force_1k input)\<rparr>"
  using assms by (simp add: print_info_def Let_def)

lemma blocks_layout: "blocks (sector_layout data s) = (if s < 32 then 4 else 16)"
  by (simp add: sector_layout_def Let_def)

lemma length_sector_rows: "length (sector_rows c data s) = (if s < 32 then 4 else 16)"
  by (simp add: sector_rows_def blocks_layout Let_def)

lemma length_concat_sector_rows:
  "length (concat (map (sector_rows c data) [0..<n])) =
     (if n \<le> 32 then 4 * n else 128 + 16 * (n - 32))"
proof (induction n)
  case 0 show ?case by simp
next
  case (Suc n)
  then show ?case by (auto simp: length_sector_rows)
qed

lemma concat_map_upt_nth:
  assumes "s < n" and "b < length (f s)"
  shows "concat (map f [0..<n]) ! (length (concat (map f [0..<s])) + b) = f s ! b"
proof -
  have "[0..<n] = [0..<s] @ s # [Suc s..<n]"
    using assms(1) by (metis less_imp_le_nat upt_add_eq_append upt_conv_Cons le0 le_add_diff_inverse)
  then have "concat (map f [0..<n]) = concat (map f [0..<s]) @ f s @ concat (map f [Suc s..<n])"
    by simp
  then show ?thesis
    using assms(2) by (simp add: nth_append)
qed

lemma row_at:
  assumes "s < n" and "b < blocks (sector_layout data s)"
  shows "concat (map (sector_rows c data) [0..<n]) ! row_index s b =
           block_row c data s (sector_layout data s) b"
proof -
  have l: "b < length (sector_rows c data s)"
    using assms(2) by (simp add: length_sector_rows blocks_layout)
  have i: "row_index s b = length (concat (map (sector_rows c data) [0..<s])) + b"
    by (simp add: row_index_def length_concat_sector_rows)
  have "sector_rows c data s ! b = block_row c data s (sector_layout data s) b"
    using assms(2) by (simp add: sector_rows_def Let_def)
  then show ?thesis
    using concat_map_upt_nth [of s n b "sector_rows c data"] assms(1) l i by simp
qed

lemma ERR_not_bits:
  assumes "i < 8"
  shows "w @ ''ERR'' @ d \<noteq> a @ bit_rep ! i @ d"
proof
  assume e: "w @ ''ERR'' @ d = a @ bit_rep ! i @ d"
  have l3: "length (bit_rep ! i) = 3" and h: "hd (bit_rep ! i) \<noteq> CHR ''E''"
    using assms by (auto simp: bit_rep_def nth_Cons' less_Suc_eq numeral_eq_Suc)
  from e have e': "w @ ''ERR'' = a @ bit_rep ! i" by simp
  then have "length (w @ ''ERR'') = length (a @ bit_rep ! i)" by (rule arg_cong)
  then have "length w = length a" using l3 by simp
  with e' have "''ERR'' = bit_rep ! i" by simp
  with h show False by (metis list.sel(1))
qed

lemma block_row_invalid:
  assumes "get_access_condition (word_of_nat s) (word_of_nat b) (access_bits v) = - 1"
  shows "str_access_bits (block_row c data s v b) = color_warning c @ ''ERR'' @ color_default c"
    and "str_permissions (block_row c data s v b) = []"
  using assms by (simp_all add: block_row_def Let_def empty_string_def)

lemma block_row_valid:
  assumes "get_access_condition (word_of_nat s) (word_of_nat b) (access_bits v) = cnd"
    and "0 \<le> cnd" and "cnd \<le> 7"
  shows "str_access_bits (block_row c data s v b) =
           color_access c @ bit_rep ! nat cnd @ color_default c"
    and "str_permissions (block_row c data s v b) =
           (if b = 0 \<and> s = 0 then ''-''
            else if b = blocks v - 1 then permission_trailer ! nat cnd
            else permission_data ! nat cnd)"
  using assms by (simp_all add: block_row_def Let_def)

lemma no_empty_permission:
  "[] \<notin> set permission_trailer \<and> [] \<notin> set permission_data"
  by (simp add: permission_trailer_def permission_data_def)

lemma table_lengths:
  "length bit_rep = 8 \<and> length permission_trailer = 8 \<and> length permission_data = 8"
  by (simp add: bit_rep_def permission_trailer_def permission_data_def)

lemma length_read_data: "length (read_data input) = 4097"
  by (simp add: read_data_def)

lemma read_data_nth:
  "i < 4097 \<Longrightarrow> read_data input ! i = (if i < length input then input ! i else 0)"
  by (auto simp: read_data_def nth_append)

lemma read_data_append_zeros:
  assumes "i < 4097" and "i < length xs + m"
  shows "read_data (xs @ replicate m 0 @ zs) ! i = read_data xs ! i"
  using assms by (auto simp: read_data_nth nth_append)

lemma forced_1k_resolves: "resolve_sectors (data_size_of True input) = Some 16"
  by (simp add: data_size_of_def resolve_sectors_def)

lemma regime_split:
  "length (filter (\<lambda>s. blocks (sector_layout data s) = 4) [0..<40]) = 32 \<and>
   length (filter (\<lambda>s. blocks (sector_layout data s) = 16) [0..<40]) = 8"
  by (simp add: blocks_layout upt_rec [of _ "numeral _"] upt_rec [of 0])

lemma take_drop_agree:
  assumes "length xs = length ys" and "\<And>i. k \<le> i \<Longrightarrow> i < k + m \<Longrightarrow> xs ! i = ys ! i"
  shows "take m (drop k xs) = take m (drop k ys)"
proof (rule nth_equalityI)
  show "length (take m (drop k xs)) = length (take m (drop k ys))"
    using assms(1) by simp
next
  fix i assume "i < length (take m (drop k xs))"
  then have i: "i < m" "k + i < length xs" by auto
  then have "xs ! (k + i) = ys ! (k + i)"
    by (intro assms(2)) simp_all
  with i assms(1) show "take m (drop k xs) ! i = take m (drop k ys) ! i"
    by simp
qed

lemma sector_layout_agree:
  assumes "agree_on_sector data data' s"
  shows "sector_layout data s = sector_layout data' s"
proof -
  have l: "length data = length data'"
    and a: "\<And>i. sector_start (sector_layout data s) \<le> i \<Longrightarrow>
          i < sector_start (sector_layout data s) + sector_size (sector_layout data s)
          \<Longrightarrow> data ! i = data' ! i"
    using assms by (auto simp: agree_on_sector_def)
  show ?thesis
  proof (cases "s < 32")
    case True
    have "take 6 (drop (s * 64 + 48) data) = take 6 (drop (s * 64 + 48) data')"
      "take 6 (drop (s * 64 + 58) data) = take 6 (drop (s * 64 + 58) data')"
      "take 4 (drop (s * 64 + 54) data) = take 4 (drop (s * 64 + 54) data')"
      using True a by (auto intro!: take_drop_agree l simp: sector_layout_def Let_def)
    with True show ?thesis by (simp add: sector_layout_def Let_def add.commute)
  next
    case False
    have "take 6 (drop (2048 + (s - 32) * 256 + 240) data) =
          take 6 (drop (2048 + (s - 32) * 256 + 240) data')"
      "take 6 (drop (2048 + (s - 32) * 256 + 250) data) =
       take 6 (drop (2048 + (s - 32) * 256 + 250) data')"
      "take 4 (drop (2048 + (s - 32) * 256 + 246) data) =
       take 4 (drop (2048 + (s - 32) * 256 + 246) data')"
      using False a by (auto intro!: take_drop_agree l simp: sector_layout_def Let_def)
    with False show ?thesis by (simp add: sector_layout_def Let_def add.commute add.left_commute)
  qed
qed

lemma block_row_agree:
  assumes "agree_on_sector data data' s" and "b < blocks (sector_layout data s)"
  shows "block_row c data s (sector_layout data s) b =
         block_row c data' s (sector_layout data' s) b"
proof -
  let ?v = "sector_layout data s"
  have v: "sector_layout data' s = ?v"
    using sector_layout_agree [OF assms(1)] by simp
  have sz: "sector_size ?v = blocks ?v * 16" "block_size ?v = 16"
    by (simp_all add: sector_layout_def Let_def)
  have a: "\<And>i. sector_start ?v \<le> i \<Longrightarrow> i < sector_start ?v + sector_size ?v
          \<Longrightarrow> data ! i = data' ! i"
    using assms(1) by (auto simp: agree_on_sector_def)
  have "data ! (sector_start ?v + b * 16 + i) = data' ! (sector_start ?v + b * 16 + i)"
    if "i < 16" for i
  proof (rule a)
    show "sector_start ?v \<le> sector_start ?v + b * 16 + i" by simp
    have "b * 16 + i < blocks ?v * 16" using that assms(2) by simp
    then show "sector_start ?v + b * 16 + i < sector_start ?v + sector_size ?v"
      by (simp add: sz)
  qed
  then have h: "map (\<lambda>i. hex2 (data ! (sector_start ?v + b * block_size ?v + i))) [0..<block_size ?v] =
        map (\<lambda>i. hex2 (data' ! (sector_start ?v + b * block_size ?v + i))) [0..<block_size ?v]"
    by (simp add: sz)
  show ?thesis
    unfolding v block_row_def Let_def h by (rule refl)
qed

lemma slot_index_of_nat:
  assumes "s < 40" and "b < 16"
  shows "slot_index (word_of_nat s) (word_of_nat b) = word_of_nat (if 32 \<le> s then b div 5 else b)"
proof -
  have s: "unat (word_of_nat s :: u32) = s" and b: "unat (word_of_nat b :: u32) = b"
    using assms by (simp_all add: unat_of_nat)
  have c: "(32 :: u32) \<le> word_of_nat s \<longleftrightarrow> 32 \<le> s"
    by (simp add: word_le_nat_alt s)
  have d: "(word_of_nat b :: u32) div 5 = word_of_nat (b div 5)"
    using assms(2) by (simp add: word_unat_eq_iff unat_div b unat_of_nat)
  show ?thesis
    by (simp add: slot_index_def c d)
qed

lemma slot_index_in_report:
  assumes "s < 40" and "b < blocks (sector_layout data s)"
  shows "slot_index (word_of_nat s) (word_of_nat b) < 4"
proof -
  have b: "b < 16" "s < 32 \<Longrightarrow> b < 4"
    using assms(2) by (simp_all add: blocks_layout split: if_splits)
  have "(if 32 \<le> s then b div 5 else b) < 4"
    using b by auto
  then have "(word_of_nat (if 32 \<le> s then b div 5 else b) :: u32) < 4"
    by (simp add: word_less_nat_alt unat_of_nat)
  then show ?thesis
    using slot_index_of_nat [OF assms(1) b(1)] by simp
qed

lemma resolve_sectors_le_40: "resolve_sectors data_size = Some n \<Longrightarrow> n \<le> 40"
  by (auto simp: resolve_sectors_def split: if_splits)

lemma digit_value_nth: "d < 10 \<Longrightarrow> digit_value (''0123456789'' ! d) = d"
  by (auto simp: digit_value_def less_Suc_eq numeral_eq_Suc nth_Cons')

lemma undec_dec: "undec (dec n) = n"
proof (induction n rule: dec.induct)
  case (1 n)
  show ?case
  proof (cases "n < 10")
    case True
    then show ?thesis
      by (subst dec.simps) (simp add: undec_def digit_value_nth)
  next
    case False
    then have "undec (dec (n div 10)) = n div 10" by (rule 1)
    with False show ?thesis
      by (subst dec.simps) (simp add: undec_def digit_value_nth)
  qed
qed

lemma hd_stdout:
  assumes "resolve_sectors (data_size_of force_1k input) = Some m"
  shows "hd (stdout (print_info force_1k c input)) =
    Text (''File size: '' @ dec (data_size_of force_1k input) @ '' bytes. Expected '' @ dec m @
           '' sectors'' @ [CHR 0x0A])"
  using assms by (simp add: print_info_def Let_def header_def)

lemma dec_sizes:
  "dec 320 = ''320''" "dec 1024 = ''1024''" "dec 2048 = ''2048''" "dec 4096 = ''4096''"
  "dec 5 = ''5''" "dec 16 = ''16''" "dec 32 = ''32''" "dec 40 = ''40''"
  by (simp_all add: dec.simps)

lemma print_info_size_ok:
  assumes "length input = n" and "resolve_sectors n = Some m"
  shows "ret (print_info False c input) = 0 \<and> stderr (print_info False c input) = [] \<and>
    hd (stdout (print_info False c input)) =
      Text (''File size: '' @ dec n @ '' bytes. Expected '' @ dec m @ '' sectors'' @ [CHR 0x0A]) \<and>
    rows_of (stdout (print_info False c input)) =
      concat (map (sector_rows c (read_data input)) [0..<m]) \<and>
    length (rows_of (stdout (print_info False c input))) =
      (if m \<le> 32 then 4 * m else 128 + 16 * (m - 32))"
proof -
  have "n \<le> 4096"
    using assms(2) by (auto simp: resolve_sectors_def split: if_splits)
  then have d: "data_size_of False input = n"
    using assms(1) by (simp add: data_size_of_def)
  have r: "resolve_sectors (data_size_of False input) = Some m"
    using assms(2) d by simp
  show ?thesis
    using print_info_ok [OF r, of c] hd_stdout [OF r, of c] d
    by (simp add: length_concat_sector_rows)
qed

lemma print_info_size_wrong:
  assumes "length input \<noteq> 320" and "length input \<noteq> 1024" and "length input \<noteq> 2048"
    and "length input \<noteq> 4096"
  shows "print_info False c input =
    \<lparr>ret = 1, stdout = [],
     stderr = ''Wrong file size: '' @ dec (min (length input) 4097) @ '' bytes.'' @ [CHR 0x0A] @
              ''Only 320, 1024, 2048 or 4096 bytes is allowed.''\<rparr>"
proof -
  have "resolve_sectors (data_size_of False input) = None"
    using assms by (auto simp: resolve_sectors_def data_size_of_def min_def)
  then show ?thesis
    using print_info_fail [of False input c]
    by (simp add: EXIT_FAILURE_def wrong_size_message_def data_size_of_def)
qed

section \<open>Claims about the decoder\<close>

text \<open>
  Claim C1. For every array of four access bytes and every slot \<open>k\<close> in 0..3 (the block
  number after the reduction of lines 169 to 174), the \<^verbatim>\<open>switch\<close> yields two 3-bit values:
  \<open>bits\<close>, assembled from the direct positions of slot \<open>k\<close> (bit \<open>4 + k\<close> of byte 1, bit \<open>k\<close>
  of byte 2, bit \<open>4 + k\<close> of byte 2), and \<open>inverted\<close>, assembled from its inverted positions
  (bit \<open>k\<close> of byte 0, bit \<open>4 + k\<close> of byte 0, bit \<open>k\<close> of byte 1). The equality
  \<open>bits = (~inverted) & 7\<close> holds exactly when each direct bit differs from its inverted
  copy. The decoder returns \<open>bits\<close> exactly when the equality holds, and when it fails the
  decoder returns \<open>-1\<close>, never a number it guessed: the value returned is the direct value of
  slot \<open>k\<close> if the three pairs of bits are complementary, and \<open>-1\<close> otherwise.
\<close>

theorem access_condition_checked:
  assumes "length ab = 4" and "slot_index sector block = k" and "k < 4"
  shows "(\<exists>bits inverted.
      slot_bits k ab = Some (bits, inverted) \<and>
      uint bits =
        4 * of_bool (C1_bit (unat k) ab) + 2 * of_bool (C2_bit (unat k) ab) +
        of_bool (C3_bit (unat k) ab) \<and>
      uint inverted =
        4 * of_bool (inv_C1_bit (unat k) ab) + 2 * of_bool (inv_C2_bit (unat k) ab) +
        of_bool (inv_C3_bit (unat k) ab) \<and>
      (bits = NOT inverted AND 0x07 \<longleftrightarrow>
         C1_bit (unat k) ab \<noteq> inv_C1_bit (unat k) ab \<and>
         C2_bit (unat k) ab \<noteq> inv_C2_bit (unat k) ab \<and>
         C3_bit (unat k) ab \<noteq> inv_C3_bit (unat k) ab) \<and>
      (get_access_condition sector block ab = uint bits \<longleftrightarrow> bits = NOT inverted AND 0x07) \<and>
      (bits \<noteq> NOT inverted AND 0x07 \<longrightarrow> get_access_condition sector block ab = - 1)) \<and>
    get_access_condition sector block ab =
      (if C1_bit (unat k) ab \<noteq> inv_C1_bit (unat k) ab \<and>
          C2_bit (unat k) ab \<noteq> inv_C2_bit (unat k) ab \<and>
          C3_bit (unat k) ab \<noteq> inv_C3_bit (unat k) ab
       then 4 * of_bool (C1_bit (unat k) ab) + 2 * of_bool (C2_bit (unat k) ab) +
            of_bool (C3_bit (unat k) ab)
       else - 1)"
proof -
  let ?bits = "w3 (C1_bit (unat k) ab) (C2_bit (unat k) ab) (C3_bit (unat k) ab)"
  let ?inverted = "w3 (inv_C1_bit (unat k) ab) (inv_C2_bit (unat k) ab) (inv_C3_bit (unat k) ab)"
  have sb: "slot_bits k ab = Some (?bits, ?inverted)"
    using assms(3) by (rule slot_bits_Some)
  have eq: "sint ?bits = uint ?bits"
    by (simp add: sint_w3 uint_w3)
  have r: "get_access_condition sector block ab =
      (if ?bits \<noteq> NOT ?inverted AND 0x07 then - 1 else uint ?bits)"
    unfolding get_access_condition_def assms(2) sb by (simp only: option.case prod.case eq)
  note c = check_cases [OF r]
  have ub: "uint ?bits =
        4 * of_bool (C1_bit (unat k) ab) + 2 * of_bool (C2_bit (unat k) ab) +
        of_bool (C3_bit (unat k) ab)"
    and ui: "uint ?inverted =
        4 * of_bool (inv_C1_bit (unat k) ab) + 2 * of_bool (inv_C2_bit (unat k) ab) +
        of_bool (inv_C3_bit (unat k) ab)"
    by (simp_all add: uint_w3 three_bits_def)
  have ex: "\<exists>bits inverted.
      slot_bits k ab = Some (bits, inverted) \<and>
      uint bits =
        4 * of_bool (C1_bit (unat k) ab) + 2 * of_bool (C2_bit (unat k) ab) +
        of_bool (C3_bit (unat k) ab) \<and>
      uint inverted =
        4 * of_bool (inv_C1_bit (unat k) ab) + 2 * of_bool (inv_C2_bit (unat k) ab) +
        of_bool (inv_C3_bit (unat k) ab) \<and>
      (bits = NOT inverted AND 0x07 \<longleftrightarrow>
         C1_bit (unat k) ab \<noteq> inv_C1_bit (unat k) ab \<and>
         C2_bit (unat k) ab \<noteq> inv_C2_bit (unat k) ab \<and>
         C3_bit (unat k) ab \<noteq> inv_C3_bit (unat k) ab) \<and>
      (get_access_condition sector block ab = uint bits \<longleftrightarrow> bits = NOT inverted AND 0x07) \<and>
      (bits \<noteq> NOT inverted AND 0x07 \<longrightarrow> get_access_condition sector block ab = - 1)"
    by (intro exI conjI, rule sb, rule ub, rule ui, rule w3_check,
        rule c [THEN conjunct1], rule c [THEN conjunct2])
  have v: "get_access_condition sector block ab =
      (if C1_bit (unat k) ab \<noteq> inv_C1_bit (unat k) ab \<and>
          C2_bit (unat k) ab \<noteq> inv_C2_bit (unat k) ab \<and>
          C3_bit (unat k) ab \<noteq> inv_C3_bit (unat k) ab
       then 4 * of_bool (C1_bit (unat k) ab) + 2 * of_bool (C2_bit (unat k) ab) +
            of_bool (C3_bit (unat k) ab)
       else - 1)"
    using get_access_condition_slot [OF assms(2,3), of ab] by (simp add: three_bits_def)
  from ex v show ?thesis by (rule conjI)
qed

theorem access_condition_checked_witness:
  "length [0xFF, 0x07, 0x80, 0x00 :: u8] = 4 \<and> slot_index 0 3 = 3 \<and> (3 :: u32) < 4 \<and>
   slot_bits 3 [0xFF, 0x07, 0x80, 0x00] = Some (1, 6) \<and> (1 :: u32) = NOT 6 AND 0x07 \<and>
   get_access_condition 0 3 [0xFF, 0x07, 0x80, 0x00] = 1 \<and>
   length [0x00, 0x00, 0x00, 0x00 :: u8] = 4 \<and> slot_index 0 0 = 0 \<and> (0 :: u32) < 4 \<and>
   slot_bits 0 [0x00, 0x00, 0x00, 0x00] = Some (0, 0) \<and> (0 :: u32) \<noteq> NOT 0 AND 0x07 \<and>
   get_access_condition 0 0 [0x00, 0x00, 0x00, 0x00] = - 1 \<and>
   length [0x7F, 0x07, 0x88, 0x00 :: u8] = 4 \<and>
   slot_bits 3 [0x7F, 0x07, 0x88, 0x00] = Some (3, 4) \<and> (3 :: u32) = NOT 4 AND 0x07 \<and>
   get_access_condition 0 3 [0x7F, 0x07, 0x88, 0x00] = 3"
proof -
  have h1: "length [0xFF, 0x07, 0x80, 0x00 :: u8] = 4" by simp
  have h2: "slot_index 0 3 = 3" by (simp add: slot_index_def)
  have h3: "(3 :: u32) < 4" by simp
  have sb: "slot_bits 3 [0xFF, 0x07, 0x80, 0x00] = Some (1, 6)"
    by (simp add: slot_bits_def)
  have chk: "(1 :: u32) = NOT 6 AND 0x07" by simp
  have p: "\<not> C1_bit (unat (3 :: u32)) [0xFF, 0x07, 0x80, 0x00]"
    "\<not> C2_bit (unat (3 :: u32)) [0xFF, 0x07, 0x80, 0x00]"
    "C3_bit (unat (3 :: u32)) [0xFF, 0x07, 0x80, 0x00]"
    "inv_C1_bit (unat (3 :: u32)) [0xFF, 0x07, 0x80, 0x00]"
    "inv_C2_bit (unat (3 :: u32)) [0xFF, 0x07, 0x80, 0x00]"
    "\<not> inv_C3_bit (unat (3 :: u32)) [0xFF, 0x07, 0x80, 0x00]"
    by (simp_all add: pos_defs)
  have v: "get_access_condition 0 3 [0xFF, 0x07, 0x80, 0x00] = 1"
    using access_condition_checked [OF h1 h2 h3, THEN conjunct2] p by simp
  have g1: "length [0x00, 0x00, 0x00, 0x00 :: u8] = 4" by simp
  have g2: "slot_index 0 0 = 0" by (simp add: slot_index_def)
  have g3: "(0 :: u32) < 4" by simp
  have sb': "slot_bits 0 [0x00, 0x00, 0x00, 0x00] = Some (0, 0)"
    by (simp add: slot_bits_def)
  have chk': "(0 :: u32) \<noteq> NOT 0 AND 0x07" by simp
  have p': "\<not> C1_bit (unat (0 :: u32)) [0x00, 0x00, 0x00, 0x00]"
    "\<not> inv_C1_bit (unat (0 :: u32)) [0x00, 0x00, 0x00, 0x00]"
    by (simp_all add: pos_defs)
  have v': "get_access_condition 0 0 [0x00, 0x00, 0x00, 0x00] = - 1"
    using access_condition_checked [OF g1 g2 g3, THEN conjunct2] p' by simp
  have k1: "length [0x7F, 0x07, 0x88, 0x00 :: u8] = 4" by simp
  have sb'': "slot_bits 3 [0x7F, 0x07, 0x88, 0x00] = Some (3, 4)"
    by (simp add: slot_bits_def)
  have chk'': "(3 :: u32) = NOT 4 AND 0x07" by simp
  have p'': "\<not> C1_bit (unat (3 :: u32)) [0x7F, 0x07, 0x88, 0x00]"
    "C2_bit (unat (3 :: u32)) [0x7F, 0x07, 0x88, 0x00]"
    "C3_bit (unat (3 :: u32)) [0x7F, 0x07, 0x88, 0x00]"
    "inv_C1_bit (unat (3 :: u32)) [0x7F, 0x07, 0x88, 0x00]"
    "\<not> inv_C2_bit (unat (3 :: u32)) [0x7F, 0x07, 0x88, 0x00]"
    "\<not> inv_C3_bit (unat (3 :: u32)) [0x7F, 0x07, 0x88, 0x00]"
    by (simp_all add: pos_defs)
  have v'': "get_access_condition 0 3 [0x7F, 0x07, 0x88, 0x00] = 3"
    using access_condition_checked [OF k1 h2 h3, THEN conjunct2] p'' by simp
  show ?thesis
    by (intro conjI h1 h2 h3 sb chk v g1 g2 g3 sb' chk' v' k1 sb'' chk'' v'')
qed

text \<open>
  Claim C2, as stated, fails: the value returned is not \<open>C3 * 4 + C2 * 2 + C1\<close>. On the
  access bytes \<open>FF 07 80 00\<close> slot 3 has \<open>C1 = 0\<close>, \<open>C2 = 0\<close>, \<open>C3 = 1\<close>; decoding succeeds
  and returns 1, where the claim gives 4.
\<close>

theorem access_condition_not_C3_first:
  "get_access_condition 0 3 [0xFF, 0x07, 0x80, 0x00] \<noteq> - 1 \<and>
   get_access_condition 0 3 [0xFF, 0x07, 0x80, 0x00] \<noteq>
     4 * of_bool (C3_bit 3 [0xFF, 0x07, 0x80, 0x00]) +
     2 * of_bool (C2_bit 3 [0xFF, 0x07, 0x80, 0x00]) +
     of_bool (C1_bit 3 [0xFF, 0x07, 0x80, 0x00])"
  by (simp add: get_access_condition_def slot_index_def slot_bits_def pos_defs)

text \<open>
  Claim C2, amended. For every array of four access bytes and every slot \<open>k\<close> in 0..3 on
  which decoding succeeds, the value returned is \<open>C1 * 4 + C2 * 2 + C3\<close>: the three access
  bits of slot \<open>k\<close> with \<open>C1\<close> as the most significant bit, as the comments of the decoder
  and the order of the two permission tables have it. The positions are those of the claim:
  \<open>C1\<close> is bit \<open>4 + k\<close> of byte 1, \<open>C2\<close> is bit \<open>k\<close> of byte 2, \<open>C3\<close> is bit \<open>4 + k\<close> of byte 2.
\<close>

theorem access_condition_value:
  assumes "length ab = 4" and "slot_index sector block = k" and "k < 4"
    and "get_access_condition sector block ab \<noteq> - 1"
  shows "get_access_condition sector block ab =
    4 * of_bool (C1_bit (unat k) ab) + 2 * of_bool (C2_bit (unat k) ab) +
    of_bool (C3_bit (unat k) ab)"
  using assms(4) get_access_condition_slot [OF assms(2,3), of ab]
  by (simp add: three_bits_def split: if_splits)

theorem access_condition_value_witness:
  "length [0xFF, 0x07, 0x80, 0x00 :: u8] = 4 \<and> slot_index 0 3 = 3 \<and> (3 :: u32) < 4 \<and>
   get_access_condition 0 3 [0xFF, 0x07, 0x80, 0x00] \<noteq> - 1 \<and>
   get_access_condition 0 3 [0xFF, 0x07, 0x80, 0x00] =
     4 * of_bool (C1_bit (unat (3 :: u32)) [0xFF, 0x07, 0x80, 0x00]) +
     2 * of_bool (C2_bit (unat (3 :: u32)) [0xFF, 0x07, 0x80, 0x00]) +
     of_bool (C3_bit (unat (3 :: u32)) [0xFF, 0x07, 0x80, 0x00]) \<and>
   get_access_condition 0 3 [0xFF, 0x07, 0x80, 0x00] = 1"
proof -
  have h1: "length [0xFF, 0x07, 0x80, 0x00 :: u8] = 4" by simp
  have h2: "slot_index 0 3 = 3" by (simp add: slot_index_def)
  have h3: "(3 :: u32) < 4" by simp
  have h4: "get_access_condition 0 3 [0xFF, 0x07, 0x80, 0x00] \<noteq> - 1"
    by (simp add: get_access_condition_def slot_index_def slot_bits_def)
  have v: "get_access_condition 0 3 [0xFF, 0x07, 0x80, 0x00] = 1"
    by (simp add: get_access_condition_def slot_index_def slot_bits_def)
  show ?thesis
    using h1 h2 h3 h4 v access_condition_value [OF h1 h2 h3 h4] by simp
qed

text \<open>
  Claim C4. In an extended sector (sector number at least 32) two blocks \<open>b\<close>, \<open>b'\<close> in
  0..15 with \<open>b / 5 = b' / 5\<close> decode to the same result, a value or the failure alike: the
  slot is the cluster number \<open>b / 5\<close>, which is 0 for the blocks 0 to 4, 1 for 5 to 9, 2 for
  10 to 14, and 3 for block 15.
\<close>

theorem cluster_shares_condition:
  assumes "length ab = 4" and "32 \<le> sector" and "b < 16" and "b' < 16"
    and "b div 5 = b' div 5"
  shows "get_access_condition sector b ab = get_access_condition sector b' ab \<and>
         slot_index sector b = b div 5 \<and> slot_index sector b < 4 \<and>
         (b \<le> 4 \<longrightarrow> slot_index sector b = 0) \<and>
         (5 \<le> b \<and> b \<le> 9 \<longrightarrow> slot_index sector b = 1) \<and>
         (10 \<le> b \<and> b \<le> 14 \<longrightarrow> slot_index sector b = 2) \<and>
         (b = 15 \<longrightarrow> slot_index sector b = 3)"
proof -
  have s: "slot_index sector b = b div 5" "slot_index sector b' = b' div 5"
    using assms(2) by (simp_all add: slot_index_def)
  have u: "unat b < 16" using assms(3) by (simp add: word_less_nat_alt)
  have e: "get_access_condition sector b ab = get_access_condition sector b' ab"
    by (simp add: get_access_condition_def s assms(5))
  have r: "unat (b div 5) = unat b div 5" by (simp add: unat_div)
  have "b div 5 < 4"
    using u r by (simp add: word_less_nat_alt)
  moreover have "b \<le> 4 \<longrightarrow> b div 5 = 0"
    by (simp add: word_le_nat_alt word_unat_eq_iff r)
  moreover have "5 \<le> b \<and> b \<le> 9 \<longrightarrow> b div 5 = 1"
  proof -
    have "5 \<le> unat b \<and> unat b \<le> 9 \<longrightarrow> unat b div 5 = 1" by arith
    then show ?thesis by (simp add: word_le_nat_alt word_unat_eq_iff r)
  qed
  moreover have "10 \<le> b \<and> b \<le> 14 \<longrightarrow> b div 5 = 2"
  proof -
    have "10 \<le> unat b \<and> unat b \<le> 14 \<longrightarrow> unat b div 5 = 2" by arith
    then show ?thesis by (simp add: word_le_nat_alt word_unat_eq_iff r)
  qed
  moreover have "b = 15 \<longrightarrow> b div 5 = 3"
    by simp
  ultimately show ?thesis using e unfolding s(1) by blast
qed

theorem cluster_shares_condition_witness:
  "length [0xFF, 0x07, 0x80, 0x00 :: u8] = 4 \<and> (32 :: u32) \<le> 32 \<and> (5 :: u32) < 16 \<and>
   (9 :: u32) < 16 \<and> (5 :: u32) div 5 = 9 div 5 \<and>
   get_access_condition 32 5 [0xFF, 0x07, 0x80, 0x00] =
     get_access_condition 32 9 [0xFF, 0x07, 0x80, 0x00] \<and>
   (5 :: u32) \<le> 5 \<and> (5 :: u32) \<le> 9 \<and> slot_index 32 5 = 1"
proof -
  have h1: "length [0xFF, 0x07, 0x80, 0x00 :: u8] = 4" by simp
  have h2: "(32 :: u32) \<le> 32" by simp
  have h3: "(5 :: u32) < 16" "(9 :: u32) < 16" by simp_all
  have h4: "(5 :: u32) div 5 = 9 div 5" by simp
  show ?thesis
    using h1 h2 h3 h4 cluster_shares_condition [OF h1 h2 h3 h4] by simp
qed

text \<open>
  Claim C6, as stated, fails: on the access bytes \<open>FF 07 80 00\<close> slot 3 does not decode to
  condition 0.
\<close>

theorem fixture_slot_3_not_0:
  "get_access_condition 0 3 [0xFF, 0x07, 0x80, 0x00] \<noteq> 0"
  by (simp add: get_access_condition_def slot_index_def slot_bits_def)

text \<open>
  Claim C6, amended. On the access bytes \<open>FF 07 80 00\<close> decoding succeeds for every slot
  in 0..3; it returns condition 0 for the slots 0, 1 and 2 and condition 1 for slot 3.
\<close>

theorem fixture_conditions:
  assumes "slot_index sector block = k" and "k < 4"
  shows "get_access_condition sector block [0xFF, 0x07, 0x80, 0x00] = (if k = 3 then 1 else 0)"
proof -
  consider "k = 0" | "k = 1" | "k = 2" | "k = 3"
    using u32_less_4 [OF assms(2)] by blast
  then show ?thesis
    by cases (simp_all add: get_access_condition_def assms(1) slot_bits_def)
qed

theorem fixture_conditions_witness:
  "slot_index 0 2 = 2 \<and> (2 :: u32) < 4 \<and>
   get_access_condition 0 2 [0xFF, 0x07, 0x80, 0x00] = 0 \<and>
   slot_index 39 15 = 3 \<and> (3 :: u32) < 4 \<and>
   get_access_condition 39 15 [0xFF, 0x07, 0x80, 0x00] = 1"
proof -
  have a: "slot_index 0 2 = 2" by (simp add: slot_index_def)
  have b: "slot_index 39 15 = 3" by (simp add: slot_index_def)
  have c: "(2 :: u32) < 4" "(3 :: u32) < 4" by simp_all
  show ?thesis
    using a b c fixture_conditions [OF a c(1)] fixture_conditions [OF b c(2)] by simp
qed

text \<open>
  Claim C10. The decoder is total and its result is in range: for every sector number, every
  block number and every array of four access bytes it returns \<open>-1\<close> or a number in 0..7; a
  slot outside 0..3 gives \<open>-1\<close>.
\<close>

theorem access_condition_range:
  assumes "length ab = 4"
  shows "(get_access_condition sector block ab = - 1 \<or>
          (0 \<le> get_access_condition sector block ab \<and>
           get_access_condition sector block ab \<le> 7)) \<and>
         (\<not> slot_index sector block < 4 \<longrightarrow> get_access_condition sector block ab = - 1)"
  using get_access_condition_in_range [of sector block ab]
  by (simp add: get_access_condition_default)

theorem access_condition_range_witness:
  "length [0xFF, 0x07, 0x80, 0x00 :: u8] = 4 \<and>
   \<not> slot_index 0 7 < 4 \<and> get_access_condition 0 7 [0xFF, 0x07, 0x80, 0x00] = - 1 \<and>
   slot_index 0 3 < 4 \<and> get_access_condition 0 3 [0xFF, 0x07, 0x80, 0x00] = 1 \<and>
   length [0x00, 0x00, 0x00, 0x00 :: u8] = 4 \<and>
   slot_index 0 0 < 4 \<and> get_access_condition 0 0 [0x00, 0x00, 0x00, 0x00] = - 1"
proof -
  have h1: "length [0xFF, 0x07, 0x80, 0x00 :: u8] = 4" by simp
  have h2: "length [0x00, 0x00, 0x00, 0x00 :: u8] = 4" by simp
  have s: "\<not> slot_index 0 7 < 4" "slot_index 0 3 < 4" "slot_index 0 0 < 4"
    by (simp_all add: slot_index_def)
  have v: "get_access_condition 0 3 [0xFF, 0x07, 0x80, 0x00] = 1"
    "get_access_condition 0 0 [0x00, 0x00, 0x00, 0x00] = - 1"
    by (simp_all add: get_access_condition_def slot_index_def slot_bits_def)
  show ?thesis
    using h1 h2 s v access_condition_range [OF h1, of 0 7] by simp
qed

section \<open>Claims about the geometry and the report\<close>

text \<open>
  Claim C3. The \<^verbatim>\<open>switch\<close> on the size gives 5 sectors for 320 bytes, 16 for 1024, 32 for
  2048 and 40 for 4096, of which 32 have 4 blocks and 8 have 16 blocks, and nothing for any
  other size. Without \<^verbatim>\<open>-1\<close>, an input of 320, 1024, 2048 or 4096 bytes makes \<^verbatim>\<open>print_info\<close>
  return 0, announce that size and 5, 16, 32 or 40 sectors in its first line, and write the
  rows of that many sectors (20, 64, 128 or 256 rows). An input of any other length,
  longer ones included, makes it fail: it returns 1, writes nothing at all to the standard
  output, hence no row, and writes to the standard error the text
  \<^verbatim>\<open>Wrong file size: N bytes.\<close> followed by the line
  \<^verbatim>\<open>Only 320, 1024, 2048 or 4096 bytes is allowed.\<close>, where \<open>N\<close> is the decimal numeral of
  the number of bytes that \<^verbatim>\<open>fread\<close> put into the buffer of 4097 bytes: the length of the
  input when that is at most 4097, and 4097 for a longer input. The numeral reads back as
  that number.
\<close>

theorem geometry_resolution:
  "resolve_sectors 320 = Some 5 \<and> resolve_sectors 1024 = Some 16 \<and>
   resolve_sectors 2048 = Some 32 \<and> resolve_sectors 4096 = Some 40 \<and>
   length (filter (\<lambda>s. blocks (sector_layout data s) = 4) [0..<40]) = 32 \<and>
   length (filter (\<lambda>s. blocks (sector_layout data s) = 16) [0..<40]) = 8 \<and>
   (n \<noteq> 320 \<and> n \<noteq> 1024 \<and> n \<noteq> 2048 \<and> n \<noteq> 4096 \<longrightarrow> resolve_sectors n = None) \<and>
   (data_size_of force_1k input = n \<and> resolve_sectors n = None \<longrightarrow>
      print_info force_1k c input =
        \<lparr>ret = EXIT_FAILURE, stdout = [], stderr = wrong_size_message n\<rparr>) \<and>
   (data_size_of force_1k input = n \<and> resolve_sectors n = Some m \<longrightarrow>
      ret (print_info force_1k c input) = 0 \<and>
      rows_of (stdout (print_info force_1k c input)) =
        concat (map (sector_rows c (read_data input)) [0..<m])) \<and>
   (length input = 320 \<longrightarrow>
      ret (print_info False c input) = 0 \<and> stderr (print_info False c input) = [] \<and>
      hd (stdout (print_info False c input)) =
        Text (''File size: 320 bytes. Expected 5 sectors'' @ [CHR 0x0A]) \<and>
      rows_of (stdout (print_info False c input)) =
        concat (map (sector_rows c (read_data input)) [0..<5]) \<and>
      length (rows_of (stdout (print_info False c input))) = 20) \<and>
   (length input = 1024 \<longrightarrow>
      ret (print_info False c input) = 0 \<and> stderr (print_info False c input) = [] \<and>
      hd (stdout (print_info False c input)) =
        Text (''File size: 1024 bytes. Expected 16 sectors'' @ [CHR 0x0A]) \<and>
      rows_of (stdout (print_info False c input)) =
        concat (map (sector_rows c (read_data input)) [0..<16]) \<and>
      length (rows_of (stdout (print_info False c input))) = 64) \<and>
   (length input = 2048 \<longrightarrow>
      ret (print_info False c input) = 0 \<and> stderr (print_info False c input) = [] \<and>
      hd (stdout (print_info False c input)) =
        Text (''File size: 2048 bytes. Expected 32 sectors'' @ [CHR 0x0A]) \<and>
      rows_of (stdout (print_info False c input)) =
        concat (map (sector_rows c (read_data input)) [0..<32]) \<and>
      length (rows_of (stdout (print_info False c input))) = 128) \<and>
   (length input = 4096 \<longrightarrow>
      ret (print_info False c input) = 0 \<and> stderr (print_info False c input) = [] \<and>
      hd (stdout (print_info False c input)) =
        Text (''File size: 4096 bytes. Expected 40 sectors'' @ [CHR 0x0A]) \<and>
      rows_of (stdout (print_info False c input)) =
        concat (map (sector_rows c (read_data input)) [0..<40]) \<and>
      length (rows_of (stdout (print_info False c input))) = 32 * 4 + 8 * 16) \<and>
   (length input \<noteq> 320 \<and> length input \<noteq> 1024 \<and> length input \<noteq> 2048 \<and>
    length input \<noteq> 4096 \<longrightarrow>
      print_info False c input =
        \<lparr>ret = 1, stdout = [],
         stderr = ''Wrong file size: '' @ dec (min (length input) 4097) @ '' bytes.'' @
                  [CHR 0x0A] @ ''Only 320, 1024, 2048 or 4096 bytes is allowed.''\<rparr> \<and>
      rows_of (stdout (print_info False c input)) = [] \<and>
      undec (dec (min (length input) 4097)) = min (length input) 4097 \<and>
      (length input \<le> 4097 \<longrightarrow> min (length input) 4097 = length input))"
proof -
  have a: "resolve_sectors 320 = Some 5 \<and> resolve_sectors 1024 = Some 16 \<and>
      resolve_sectors 2048 = Some 32 \<and> resolve_sectors 4096 = Some 40"
    by (simp add: resolve_sectors_def)
  have b: "n \<noteq> 320 \<and> n \<noteq> 1024 \<and> n \<noteq> 2048 \<and> n \<noteq> 4096 \<longrightarrow> resolve_sectors n = None"
    by (simp add: resolve_sectors_def)
  have c: "data_size_of force_1k input = n \<and> resolve_sectors n = None \<longrightarrow>
      print_info force_1k c input =
        \<lparr>ret = EXIT_FAILURE, stdout = [], stderr = wrong_size_message n\<rparr>"
    using print_info_fail [of force_1k input c] by blast
  have d: "data_size_of force_1k input = n \<and> resolve_sectors n = Some m \<longrightarrow>
      ret (print_info force_1k c input) = 0 \<and>
      rows_of (stdout (print_info force_1k c input)) =
        concat (map (sector_rows c (read_data input)) [0..<m])"
    using print_info_ok(1,3) [of force_1k input m c] by blast
  have s1: "length input = 320 \<longrightarrow>
      ret (print_info False c input) = 0 \<and> stderr (print_info False c input) = [] \<and>
      hd (stdout (print_info False c input)) =
        Text (''File size: 320 bytes. Expected 5 sectors'' @ [CHR 0x0A]) \<and>
      rows_of (stdout (print_info False c input)) =
        concat (map (sector_rows c (read_data input)) [0..<5]) \<and>
      length (rows_of (stdout (print_info False c input))) = 20"
    using print_info_size_ok [of input 320 5 c] a by (simp add: dec_sizes length_concat_sector_rows)
  have s2: "length input = 1024 \<longrightarrow>
      ret (print_info False c input) = 0 \<and> stderr (print_info False c input) = [] \<and>
      hd (stdout (print_info False c input)) =
        Text (''File size: 1024 bytes. Expected 16 sectors'' @ [CHR 0x0A]) \<and>
      rows_of (stdout (print_info False c input)) =
        concat (map (sector_rows c (read_data input)) [0..<16]) \<and>
      length (rows_of (stdout (print_info False c input))) = 64"
    using print_info_size_ok [of input 1024 16 c] a by (simp add: dec_sizes length_concat_sector_rows)
  have s3: "length input = 2048 \<longrightarrow>
      ret (print_info False c input) = 0 \<and> stderr (print_info False c input) = [] \<and>
      hd (stdout (print_info False c input)) =
        Text (''File size: 2048 bytes. Expected 32 sectors'' @ [CHR 0x0A]) \<and>
      rows_of (stdout (print_info False c input)) =
        concat (map (sector_rows c (read_data input)) [0..<32]) \<and>
      length (rows_of (stdout (print_info False c input))) = 128"
    using print_info_size_ok [of input 2048 32 c] a by (simp add: dec_sizes length_concat_sector_rows)
  have s4: "length input = 4096 \<longrightarrow>
      ret (print_info False c input) = 0 \<and> stderr (print_info False c input) = [] \<and>
      hd (stdout (print_info False c input)) =
        Text (''File size: 4096 bytes. Expected 40 sectors'' @ [CHR 0x0A]) \<and>
      rows_of (stdout (print_info False c input)) =
        concat (map (sector_rows c (read_data input)) [0..<40]) \<and>
      length (rows_of (stdout (print_info False c input))) = 32 * 4 + 8 * 16"
    using print_info_size_ok [of input 4096 40 c] a by (simp add: dec_sizes length_concat_sector_rows)
  have f: "length input \<noteq> 320 \<and> length input \<noteq> 1024 \<and> length input \<noteq> 2048 \<and>
    length input \<noteq> 4096 \<longrightarrow>
      print_info False c input =
        \<lparr>ret = 1, stdout = [],
         stderr = ''Wrong file size: '' @ dec (min (length input) 4097) @ '' bytes.'' @
                  [CHR 0x0A] @ ''Only 320, 1024, 2048 or 4096 bytes is allowed.''\<rparr> \<and>
      rows_of (stdout (print_info False c input)) = [] \<and>
      undec (dec (min (length input) 4097)) = min (length input) 4097 \<and>
      (length input \<le> 4097 \<longrightarrow> min (length input) 4097 = length input)"
    using print_info_size_wrong [of input c] by (simp add: undec_dec)
  show ?thesis
    using a regime_split [of data] b c d s1 s2 s3 s4 f by blast
qed

theorem geometry_resolution_witness:
  "length [1, 2, 3 :: u8] \<noteq> 320 \<and> length [1, 2, 3 :: u8] \<noteq> 1024 \<and>
   length [1, 2, 3 :: u8] \<noteq> 2048 \<and> length [1, 2, 3 :: u8] \<noteq> 4096 \<and>
   print_info False no_colors [1, 2, 3] =
     \<lparr>ret = 1, stdout = [],
      stderr = ''Wrong file size: 3 bytes.'' @ [CHR 0x0A] @
               ''Only 320, 1024, 2048 or 4096 bytes is allowed.''\<rparr> \<and>
   length (replicate 5000 (0 :: u8)) \<noteq> 320 \<and> length (replicate 5000 (0 :: u8)) \<noteq> 1024 \<and>
   length (replicate 5000 (0 :: u8)) \<noteq> 2048 \<and> length (replicate 5000 (0 :: u8)) \<noteq> 4096 \<and>
   print_info False no_colors (replicate 5000 0) =
     \<lparr>ret = 1, stdout = [],
      stderr = ''Wrong file size: 4097 bytes.'' @ [CHR 0x0A] @
               ''Only 320, 1024, 2048 or 4096 bytes is allowed.''\<rparr> \<and>
   length (replicate 320 (0 :: u8)) = 320 \<and>
   ret (print_info False no_colors (replicate 320 0)) = 0 \<and>
   hd (stdout (print_info False no_colors (replicate 320 0))) =
     Text (''File size: 320 bytes. Expected 5 sectors'' @ [CHR 0x0A]) \<and>
   length (rows_of (stdout (print_info False no_colors (replicate 320 0)))) = 20 \<and>
   length (replicate 4096 (0 :: u8)) = 4096 \<and>
   ret (print_info False no_colors (replicate 4096 0)) = 0 \<and>
   hd (stdout (print_info False no_colors (replicate 4096 0))) =
     Text (''File size: 4096 bytes. Expected 40 sectors'' @ [CHR 0x0A]) \<and>
   length (rows_of (stdout (print_info False no_colors (replicate 4096 0)))) = 256"
proof -
  have h3: "length [1, 2, 3 :: u8] \<noteq> 320 \<and> length [1, 2, 3 :: u8] \<noteq> 1024 \<and>
      length [1, 2, 3 :: u8] \<noteq> 2048 \<and> length [1, 2, 3 :: u8] \<noteq> 4096"
    by simp
  have h5: "length (replicate 5000 (0 :: u8)) \<noteq> 320 \<and>
      length (replicate 5000 (0 :: u8)) \<noteq> 1024 \<and>
      length (replicate 5000 (0 :: u8)) \<noteq> 2048 \<and>
      length (replicate 5000 (0 :: u8)) \<noteq> 4096"
    by simp
  have l320: "length (replicate 320 (0 :: u8)) = 320"
    and l4096: "length (replicate 4096 (0 :: u8)) = 4096"
    by simp_all
  have d: "dec (min (length [1, 2, 3 :: u8]) 4097) = ''3''"
    "dec (min (length (replicate 5000 (0 :: u8))) 4097) = ''4097''"
    by (simp_all add: dec.simps)
  from geometry_resolution [of "[]" 0 False "[1, 2, 3]" no_colors 0] h3
  have f3: "print_info False no_colors [1, 2, 3] =
     \<lparr>ret = 1, stdout = [],
      stderr = ''Wrong file size: '' @ dec (min (length [1, 2, 3 :: u8]) 4097) @ '' bytes.'' @
               [CHR 0x0A] @ ''Only 320, 1024, 2048 or 4096 bytes is allowed.''\<rparr>"
    by blast
  from geometry_resolution [of "[]" 0 False "replicate 5000 0" no_colors 0] h5
  have f5: "print_info False no_colors (replicate 5000 0) =
     \<lparr>ret = 1, stdout = [],
      stderr = ''Wrong file size: '' @ dec (min (length (replicate 5000 (0 :: u8))) 4097) @
               '' bytes.'' @ [CHR 0x0A] @
               ''Only 320, 1024, 2048 or 4096 bytes is allowed.''\<rparr>"
    by blast
  from geometry_resolution [of "[]" 0 False "replicate 320 0" no_colors 0] l320
  have g320: "ret (print_info False no_colors (replicate 320 0)) = 0 \<and>
      hd (stdout (print_info False no_colors (replicate 320 0))) =
        Text (''File size: 320 bytes. Expected 5 sectors'' @ [CHR 0x0A]) \<and>
      length (rows_of (stdout (print_info False no_colors (replicate 320 0)))) = 20"
    by blast
  from geometry_resolution [of "[]" 0 False "replicate 4096 0" no_colors 0] l4096
  have g4096: "ret (print_info False no_colors (replicate 4096 0)) = 0 \<and>
      hd (stdout (print_info False no_colors (replicate 4096 0))) =
        Text (''File size: 4096 bytes. Expected 40 sectors'' @ [CHR 0x0A]) \<and>
      length (rows_of (stdout (print_info False no_colors (replicate 4096 0)))) = 32 * 4 + 8 * 16"
    by blast
  show ?thesis
    using h3 h5 l320 l4096 f3 [unfolded d] f5 [unfolded d] g320 g4096 by simp
qed

text \<open>
  Claim C5. For every sector number \<open>i\<close> of a resolved geometry: if \<open>i < 32\<close> the sector has
  4 blocks of 16 bytes and starts at byte \<open>i * 64\<close>; if \<open>i \<ge> 32\<close>, which happens only for a
  size of 4096, it has 16 blocks of 16 bytes and starts at byte \<open>2048 + (i - 32) * 256\<close>.
  The block size is 16 in both cases, there is no third case, and the sector ends inside
  the dump.
\<close>

theorem sector_geometry:
  assumes "resolve_sectors data_size = Some n" and "i < n"
  shows "(i < 32 \<longrightarrow>
            blocks (sector_layout data i) = 4 \<and> block_size (sector_layout data i) = 16 \<and>
            sector_start (sector_layout data i) = i * 64) \<and>
         (32 \<le> i \<longrightarrow>
            data_size = 4096 \<and>
            blocks (sector_layout data i) = 16 \<and> block_size (sector_layout data i) = 16 \<and>
            sector_start (sector_layout data i) = 2048 + (i - 32) * 256) \<and>
         block_size (sector_layout data i) = 16 \<and>
         (blocks (sector_layout data i) = 4 \<or> blocks (sector_layout data i) = 16) \<and>
         sector_start (sector_layout data i) +
           blocks (sector_layout data i) * block_size (sector_layout data i) \<le> data_size"
  using assms by (auto simp: sector_layout_def Let_def resolve_sectors_def split: if_splits)

theorem sector_geometry_witness:
  "resolve_sectors 4096 = Some 40 \<and> (3 :: nat) < 40 \<and> (3 :: nat) < 32 \<and>
   blocks (sector_layout [] 3) = 4 \<and> block_size (sector_layout [] 3) = 16 \<and>
   sector_start (sector_layout [] 3) = 192 \<and>
   (39 :: nat) < 40 \<and> (32 :: nat) \<le> 39 \<and>
   blocks (sector_layout [] 39) = 16 \<and> block_size (sector_layout [] 39) = 16 \<and>
   sector_start (sector_layout [] 39) = 3840"
proof -
  have h: "resolve_sectors 4096 = Some 40" by (simp add: resolve_sectors_def)
  have i: "(3 :: nat) < 40" "(39 :: nat) < 40" by simp_all
  show ?thesis
    using h i sector_geometry [OF h i(1), of "[]"] sector_geometry [OF h i(2), of "[]"] by simp
qed

text \<open>
  Claim C7. A block whose access condition fails to decode does not abort the report:
  \<^verbatim>\<open>print_info\<close> returns 0 and writes one row for every block of every sector, the row of
  block \<open>b\<close> of sector \<open>s\<close> at position \<open>row_index s b\<close>. The slot of every block of the
  report is in 0..3, so that a decoding fails by the redundancy check only. The
  row of a block whose decoding fails carries the marker \<^verbatim>\<open>ERR\<close> between the warning colour
  and the default colour instead of a condition, and the empty permission text; the row of
  any other block carries its own condition. The rows of a sector depend on the bytes of
  that sector only: a dump of the same size that agrees with this one on a sector has the
  same rows for it, whatever the other sectors hold. The marker differs from the rendering
  of every condition, and no entry of the two permission tables is empty.
\<close>

theorem checksum_mismatch_is_local:
  assumes "resolve_sectors (data_size_of force_1k input) = Some n"
  shows "ret (print_info force_1k c input) = 0 \<and>
    length (rows_of (stdout (print_info force_1k c input))) =
      (if n \<le> 32 then 4 * n else 128 + 16 * (n - 32)) \<and>
    (\<forall>s b. s < n \<and> b < blocks (sector_layout (read_data input) s) \<longrightarrow>
       (let v = sector_layout (read_data input) s;
            r = rows_of (stdout (print_info force_1k c input)) ! row_index s b;
            cnd = get_access_condition (word_of_nat s) (word_of_nat b) (access_bits v)
        in r = block_row c (read_data input) s v b \<and>
           slot_index (word_of_nat s) (word_of_nat b) < 4 \<and>
           (cnd = - 1 \<longrightarrow>
              str_access_bits r = color_warning c @ ''ERR'' @ color_default c \<and>
              str_permissions r = []) \<and>
           (cnd \<noteq> - 1 \<longrightarrow>
              str_access_bits r = color_access c @ bit_rep ! nat cnd @ color_default c))) \<and>
    (\<forall>input' s b.
       resolve_sectors (data_size_of force_1k input') = Some n \<and> s < n \<and>
       b < blocks (sector_layout (read_data input) s) \<and>
       agree_on_sector (read_data input) (read_data input') s \<longrightarrow>
       rows_of (stdout (print_info force_1k c input')) ! row_index s b =
       rows_of (stdout (print_info force_1k c input)) ! row_index s b) \<and>
    (\<forall>i<8. color_warning c @ ''ERR'' @ color_default c \<noteq>
            color_access c @ bit_rep ! i @ color_default c) \<and>
    [] \<notin> set permission_trailer \<and> [] \<notin> set permission_data"
proof -
  let ?data = "read_data input"
  let ?rows = "rows_of (stdout (print_info force_1k c input))"
  have rows: "?rows = concat (map (sector_rows c ?data) [0..<n])"
    using assms by (rule print_info_ok(3))
  have "ret (print_info force_1k c input) = 0"
    using assms by (rule print_info_ok(1))
  moreover have "length ?rows = (if n \<le> 32 then 4 * n else 128 + 16 * (n - 32))"
    unfolding rows by (rule length_concat_sector_rows)
  moreover have "let v = sector_layout ?data s;
            r = ?rows ! row_index s b;
            cnd = get_access_condition (word_of_nat s) (word_of_nat b) (access_bits v)
        in r = block_row c ?data s v b \<and>
           slot_index (word_of_nat s) (word_of_nat b) < 4 \<and>
           (cnd = - 1 \<longrightarrow>
              str_access_bits r = color_warning c @ ''ERR'' @ color_default c \<and>
              str_permissions r = []) \<and>
           (cnd \<noteq> - 1 \<longrightarrow>
              str_access_bits r = color_access c @ bit_rep ! nat cnd @ color_default c)"
    if sb: "s < n \<and> b < blocks (sector_layout ?data s)" for s b
  proof -
    let ?v = "sector_layout ?data s"
    let ?cnd = "get_access_condition (word_of_nat s) (word_of_nat b) (access_bits ?v)"
    have r: "?rows ! row_index s b = block_row c ?data s ?v b"
      unfolding rows using sb by (simp add: row_at)
    have bad: "?cnd = - 1 \<longrightarrow>
        str_access_bits (block_row c ?data s ?v b) = color_warning c @ ''ERR'' @ color_default c \<and>
        str_permissions (block_row c ?data s ?v b) = []"
      using block_row_invalid [of s b ?v c ?data] by blast
    have good: "?cnd \<noteq> - 1 \<longrightarrow>
        str_access_bits (block_row c ?data s ?v b) =
          color_access c @ bit_rep ! nat ?cnd @ color_default c"
      using get_access_condition_in_range [of "word_of_nat s" "word_of_nat b" "access_bits ?v"]
        block_row_valid(1) [OF refl, of s b ?v c ?data]
      by blast
    have "s < 40"
      using sb resolve_sectors_le_40 [OF assms] by simp
    then have slot: "slot_index (word_of_nat s) (word_of_nat b) < 4"
      using sb slot_index_in_report [of s b ?data] by simp
    show ?thesis
      unfolding Let_def r using bad good slot by blast
  qed
  moreover have "rows_of (stdout (print_info force_1k c input')) ! row_index s b =
        ?rows ! row_index s b"
    if h: "resolve_sectors (data_size_of force_1k input') = Some n \<and> s < n \<and>
       b < blocks (sector_layout ?data s) \<and> agree_on_sector ?data (read_data input') s"
    for input' s b
  proof -
    have rows': "rows_of (stdout (print_info force_1k c input')) =
        concat (map (sector_rows c (read_data input')) [0..<n])"
      using h by (simp add: print_info_ok(3))
    have v: "sector_layout (read_data input') s = sector_layout ?data s"
      using h sector_layout_agree [of ?data "read_data input'" s] by simp
    have "concat (map (sector_rows c (read_data input')) [0..<n]) ! row_index s b =
        block_row c (read_data input') s (sector_layout (read_data input') s) b"
      using h by (intro row_at) (simp_all add: v)
    moreover have "concat (map (sector_rows c ?data) [0..<n]) ! row_index s b =
        block_row c ?data s (sector_layout ?data s) b"
      using h by (intro row_at) simp_all
    moreover have "block_row c ?data s (sector_layout ?data s) b =
        block_row c (read_data input') s (sector_layout (read_data input') s) b"
      using h by (intro block_row_agree) simp_all
    ultimately show ?thesis
      unfolding rows rows' by simp
  qed
  moreover have "\<forall>i<8. color_warning c @ ''ERR'' @ color_default c \<noteq>
            color_access c @ bit_rep ! i @ color_default c"
    using ERR_not_bits by blast
  ultimately show ?thesis
    using no_empty_permission by blast
qed

theorem checksum_mismatch_is_local_witness:
  "resolve_sectors (data_size_of True (replicate 54 0 @ [0xFF, 0x07, 0x80, 0x69])) = Some 16 \<and>
   ret (print_info True no_colors (replicate 54 0 @ [0xFF, 0x07, 0x80, 0x69])) = 0 \<and>
   length (rows_of (stdout (print_info True no_colors
     (replicate 54 0 @ [0xFF, 0x07, 0x80, 0x69])))) = 64 \<and>
   (1 :: nat) < 16 \<and>
   (2 :: nat) < blocks (sector_layout (read_data (replicate 54 0 @ [0xFF, 0x07, 0x80, 0x69])) 1) \<and>
   get_access_condition (word_of_nat 1) (word_of_nat 2)
     (access_bits (sector_layout (read_data (replicate 54 0 @ [0xFF, 0x07, 0x80, 0x69])) 1)) = - 1 \<and>
   str_access_bits (rows_of (stdout (print_info True no_colors
     (replicate 54 0 @ [0xFF, 0x07, 0x80, 0x69]))) ! 6) = ''ERR'' \<and>
   str_permissions (rows_of (stdout (print_info True no_colors
     (replicate 54 0 @ [0xFF, 0x07, 0x80, 0x69]))) ! 6) = [] \<and>
   (0 :: nat) < 16 \<and>
   (3 :: nat) < blocks (sector_layout (read_data (replicate 54 0 @ [0xFF, 0x07, 0x80, 0x69])) 0) \<and>
   get_access_condition (word_of_nat 0) (word_of_nat 3)
     (access_bits (sector_layout (read_data (replicate 54 0 @ [0xFF, 0x07, 0x80, 0x69])) 0)) = 1 \<and>
   str_access_bits (rows_of (stdout (print_info True no_colors
     (replicate 54 0 @ [0xFF, 0x07, 0x80, 0x69]))) ! 3) = ''001'' \<and>
   resolve_sectors (data_size_of True
     ((replicate 54 0 @ [0xFF, 0x07, 0x80, 0x69]) @ replicate 60 0 @ [0x0F, 0x00, 0xFF])) =
     Some 16 \<and>
   agree_on_sector (read_data (replicate 54 0 @ [0xFF, 0x07, 0x80, 0x69]))
     (read_data ((replicate 54 0 @ [0xFF, 0x07, 0x80, 0x69]) @
        replicate 60 0 @ [0x0F, 0x00, 0xFF])) 0 \<and>
   rows_of (stdout (print_info True no_colors
     ((replicate 54 0 @ [0xFF, 0x07, 0x80, 0x69]) @ replicate 60 0 @ [0x0F, 0x00, 0xFF]))) ! 3 =
   rows_of (stdout (print_info True no_colors (replicate 54 0 @ [0xFF, 0x07, 0x80, 0x69]))) ! 3"
proof -
  let ?input = "replicate 54 0 @ [0xFF, 0x07, 0x80, 0x69 :: u8]"
  have h: "resolve_sectors (data_size_of True ?input) = Some 16"
    by (simp add: data_size_of_def resolve_sectors_def)
  have a1: "access_bits (sector_layout (read_data ?input) 1) = replicate 4 0"
    by (simp add: sector_layout_def read_data_def Let_def)
  have a0: "access_bits (sector_layout (read_data ?input) 0) = [0xFF, 0x07, 0x80, 0x69]"
    by (simp add: sector_layout_def read_data_def Let_def)
  have c1: "get_access_condition (word_of_nat 1) (word_of_nat 2)
      (access_bits (sector_layout (read_data ?input) 1)) = - 1"
    unfolding a1 by (simp add: get_access_condition_def slot_index_def slot_bits_def)
  have c0: "get_access_condition (word_of_nat 0) (word_of_nat 3)
      (access_bits (sector_layout (read_data ?input) 0)) = 1"
    unfolding a0 by (simp add: get_access_condition_def slot_index_def slot_bits_def)
  have p1: "(1 :: nat) < 16 \<and> (2 :: nat) < blocks (sector_layout (read_data ?input) 1)"
    and p0: "(0 :: nat) < 16 \<and> (3 :: nat) < blocks (sector_layout (read_data ?input) 0)"
    by (simp_all add: blocks_layout)
  have i: "row_index 1 2 = 6" "row_index 0 3 = 3"
    by (simp_all add: row_index_def)
  have c0n: "get_access_condition (word_of_nat 0) (word_of_nat 3)
      (access_bits (sector_layout (read_data ?input) 0)) \<noteq> - 1"
    using c0 by simp
  note t = checksum_mismatch_is_local [OF h, of no_colors, unfolded Let_def]
  from t have r0: "ret (print_info True no_colors ?input) = 0" by blast
  from t have l: "length (rows_of (stdout (print_info True no_colors ?input))) = 64" by simp
  from t p1 c1 have
    "str_access_bits (rows_of (stdout (print_info True no_colors ?input)) ! row_index 1 2) =
       color_warning no_colors @ ''ERR'' @ color_default no_colors \<and>
     str_permissions (rows_of (stdout (print_info True no_colors ?input)) ! row_index 1 2) = []"
    by blast
  then have r6: "str_access_bits (rows_of (stdout (print_info True no_colors ?input)) ! 6) = ''ERR'' \<and>
     str_permissions (rows_of (stdout (print_info True no_colors ?input)) ! 6) = []"
    unfolding i by (simp add: no_colors_def empty_string_def)
  from t p0 c0n have
    "str_access_bits (rows_of (stdout (print_info True no_colors ?input)) ! row_index 0 3) =
       color_access no_colors @
       bit_rep ! nat (get_access_condition (word_of_nat 0) (word_of_nat 3)
         (access_bits (sector_layout (read_data ?input) 0))) @
       color_default no_colors"
    by blast
  then have r3: "str_access_bits (rows_of (stdout (print_info True no_colors ?input)) ! 3) = ''001''"
    unfolding c0 i by (simp add: no_colors_def empty_string_def bit_rep_def)
  let ?input' = "?input @ replicate 60 0 @ [0x0F, 0x00, 0xFF :: u8]"
  have h': "resolve_sectors (data_size_of True ?input') = Some 16"
    by (rule forced_1k_resolves)
  have ag: "agree_on_sector (read_data ?input) (read_data ?input') 0"
    unfolding agree_on_sector_def
  proof (intro conjI ballI)
    show "length (read_data ?input) = length (read_data ?input')"
      by (simp add: length_read_data)
  next
    fix i
    assume "i \<in> {sector_start (sector_layout (read_data ?input) 0) ..<
      sector_start (sector_layout (read_data ?input) 0) +
      sector_size (sector_layout (read_data ?input) 0)}"
    then have "i < 64"
      by (simp add: sector_layout_def Let_def)
    then have "i < 4097" "i < length ?input + 60"
      by simp_all
    then show "read_data ?input ! i = read_data ?input' ! i"
      by (rule read_data_append_zeros [symmetric])
  qed
  from t h' p0 ag have
    "rows_of (stdout (print_info True no_colors ?input')) ! row_index 0 3 =
     rows_of (stdout (print_info True no_colors ?input)) ! row_index 0 3"
    by blast
  then have e: "rows_of (stdout (print_info True no_colors ?input')) ! 3 =
     rows_of (stdout (print_info True no_colors ?input)) ! 3"
    unfolding i .
  show ?thesis
    using h r0 l c1 c0 p1 p0 r6 r3 h' ag e by simp
qed

text \<open>
  Claim C8. When the access condition of a block decodes to \<open>cnd\<close> in 0..7, its row shows
  \<open>bit_rep[cnd]\<close>. For the manufacturer block (sector 0, block 0) the permission text is the
  fixed text \<^verbatim>\<open>-\<close>, whatever \<open>cnd\<close> is; for the last block of a sector it is entry \<open>cnd\<close> of
  the trailer table, for any other block entry \<open>cnd\<close> of the data table; both tables have 8
  entries.
\<close>

theorem permission_text_by_role:
  assumes "resolve_sectors (data_size_of force_1k input) = Some n"
    and "s < n" and "b < blocks (sector_layout (read_data input) s)"
    and "get_access_condition (word_of_nat s) (word_of_nat b)
           (access_bits (sector_layout (read_data input) s)) = cnd"
    and "0 \<le> cnd" and "cnd \<le> 7"
  shows "str_access_bits (rows_of (stdout (print_info force_1k c input)) ! row_index s b) =
           color_access c @ bit_rep ! nat cnd @ color_default c \<and>
         nat cnd < length bit_rep \<and>
         (s = 0 \<and> b = 0 \<longrightarrow>
            str_permissions (rows_of (stdout (print_info force_1k c input)) ! row_index s b) =
              ''-'') \<and>
         (\<not> (s = 0 \<and> b = 0) \<and> b = blocks (sector_layout (read_data input) s) - 1 \<longrightarrow>
            str_permissions (rows_of (stdout (print_info force_1k c input)) ! row_index s b) =
              permission_trailer ! nat cnd \<and> nat cnd < length permission_trailer) \<and>
         (\<not> (s = 0 \<and> b = 0) \<and> b \<noteq> blocks (sector_layout (read_data input) s) - 1 \<longrightarrow>
            str_permissions (rows_of (stdout (print_info force_1k c input)) ! row_index s b) =
              permission_data ! nat cnd \<and> nat cnd < length permission_data)"
proof -
  let ?v = "sector_layout (read_data input) s"
  have r: "rows_of (stdout (print_info force_1k c input)) ! row_index s b =
      block_row c (read_data input) s ?v b"
    using print_info_ok(3) [OF assms(1), of c] row_at [OF assms(2,3), of c] by simp
  have n: "nat cnd < 8"
    using assms(5,6) by simp
  show ?thesis
    unfolding r
    using block_row_valid [OF assms(4,5,6), of c "read_data input"] n table_lengths
    by auto
qed

theorem permission_text_by_role_witness:
  "resolve_sectors (data_size_of True (replicate 54 0 @ [0xFF, 0x07, 0x80, 0x69])) = Some 16 \<and>
   (0 :: nat) < 16 \<and>
   (0 :: nat) < blocks (sector_layout (read_data (replicate 54 0 @ [0xFF, 0x07, 0x80, 0x69])) 0) \<and>
   get_access_condition (word_of_nat 0) (word_of_nat 0)
     (access_bits (sector_layout (read_data (replicate 54 0 @ [0xFF, 0x07, 0x80, 0x69])) 0)) = 0 \<and>
   str_access_bits (rows_of (stdout (print_info True no_colors
     (replicate 54 0 @ [0xFF, 0x07, 0x80, 0x69]))) ! 0) = ''000'' \<and>
   str_permissions (rows_of (stdout (print_info True no_colors
     (replicate 54 0 @ [0xFF, 0x07, 0x80, 0x69]))) ! 0) = ''-'' \<and>
   (3 :: nat) < blocks (sector_layout (read_data (replicate 54 0 @ [0xFF, 0x07, 0x80, 0x69])) 0) \<and>
   get_access_condition (word_of_nat 0) (word_of_nat 3)
     (access_bits (sector_layout (read_data (replicate 54 0 @ [0xFF, 0x07, 0x80, 0x69])) 0)) = 1 \<and>
   str_access_bits (rows_of (stdout (print_info True no_colors
     (replicate 54 0 @ [0xFF, 0x07, 0x80, 0x69]))) ! 3) = ''001'' \<and>
   str_permissions (rows_of (stdout (print_info True no_colors
     (replicate 54 0 @ [0xFF, 0x07, 0x80, 0x69]))) ! 3) = ''- A | A   A | A A [transport]'' \<and>
   (1 :: nat) < blocks (sector_layout (read_data (replicate 54 0 @ [0xFF, 0x07, 0x80, 0x69])) 0) \<and>
   get_access_condition (word_of_nat 0) (word_of_nat 1)
     (access_bits (sector_layout (read_data (replicate 54 0 @ [0xFF, 0x07, 0x80, 0x69])) 0)) = 0 \<and>
   str_permissions (rows_of (stdout (print_info True no_colors
     (replicate 54 0 @ [0xFF, 0x07, 0x80, 0x69]))) ! 1) = ''A/B | A/B   | A/B | A/B [transport]''"
proof -
  let ?input = "replicate 54 0 @ [0xFF, 0x07, 0x80, 0x69 :: u8]"
  let ?rows = "rows_of (stdout (print_info True no_colors ?input))"
  have h: "resolve_sectors (data_size_of True ?input) = Some 16"
    by (rule forced_1k_resolves)
  have a0: "access_bits (sector_layout (read_data ?input) 0) = [0xFF, 0x07, 0x80, 0x69]"
    by (simp add: sector_layout_def read_data_def Let_def)
  have c0: "get_access_condition (word_of_nat 0) (word_of_nat 0)
      (access_bits (sector_layout (read_data ?input) 0)) = 0"
    and c3: "get_access_condition (word_of_nat 0) (word_of_nat 3)
      (access_bits (sector_layout (read_data ?input) 0)) = 1"
    and c1: "get_access_condition (word_of_nat 0) (word_of_nat 1)
      (access_bits (sector_layout (read_data ?input) 0)) = 0"
    unfolding a0 by (simp_all add: get_access_condition_def slot_index_def slot_bits_def)
  have s: "(0 :: nat) < 16" by simp
  have b: "(0 :: nat) < blocks (sector_layout (read_data ?input) 0)"
    "(3 :: nat) < blocks (sector_layout (read_data ?input) 0)"
    "(1 :: nat) < blocks (sector_layout (read_data ?input) 0)"
    by (simp_all add: blocks_layout)
  have i: "row_index 0 0 = 0" "row_index 0 3 = 3" "row_index 0 1 = 1"
    by (simp_all add: row_index_def)
  have t0: "str_access_bits (?rows ! 0) = ''000'' \<and> str_permissions (?rows ! 0) = ''-''"
    using permission_text_by_role [OF h s b(1) c0, of no_colors]
    unfolding i by (simp add: no_colors_def empty_string_def bit_rep_def)
  have t3: "str_access_bits (?rows ! 3) = ''001'' \<and>
      str_permissions (?rows ! 3) = ''- A | A   A | A A [transport]''"
    using permission_text_by_role [OF h s b(2) c3, of no_colors]
    unfolding i
    by (simp add: no_colors_def empty_string_def bit_rep_def blocks_layout permission_trailer_def)
  have t1: "str_permissions (?rows ! 1) = ''A/B | A/B   | A/B | A/B [transport]''"
    using permission_text_by_role [OF h s b(3) c1, of no_colors]
    unfolding i
    by (simp add: blocks_layout permission_data_def)
  show ?thesis
    using h s b c0 c3 c1 t0 t3 t1 by simp
qed

text \<open>
  Claim C9, as stated, fails: with \<^verbatim>\<open>-1\<close> given, an input of fewer than 1024 bytes (here
  the empty input) is not rejected; the report of 16 sectors is written and 0 is returned.
\<close>

theorem forced_1k_short_input_not_rejected:
  "length ([] :: u8 list) < 1024 \<and> ret (print_info True no_colors []) = 0 \<and>
   stderr (print_info True no_colors []) = [] \<and>
   length (rows_of (stdout (print_info True no_colors []))) = 64"
  using print_info_ok [OF forced_1k_resolves, where input = "[]" and c = no_colors]
  by (simp add: length_concat_sector_rows)

text \<open>
  Claim C9, amended. With \<^verbatim>\<open>-1\<close> given, every input, whatever its length, is treated as a
  dump of 1024 bytes with 16 sectors of 4 blocks: \<^verbatim>\<open>print_info\<close> returns 0, writes nothing
  to the standard error and writes 64 rows. The bytes that the input does not supply are
  read as zero, for the buffer was cleared before \<^verbatim>\<open>fread\<close>.
\<close>

theorem forced_1k_any_input:
  "data_size_of True input = 1024 \<and>
   resolve_sectors (data_size_of True input) = Some 16 \<and>
   ret (print_info True c input) = 0 \<and> stderr (print_info True c input) = [] \<and>
   rows_of (stdout (print_info True c input)) =
     concat (map (sector_rows c (read_data input)) [0..<16]) \<and>
   length (rows_of (stdout (print_info True c input))) = 64 \<and>
   (\<forall>s<16. blocks (sector_layout (read_data input) s) = 4) \<and>
   length (read_data input) = 4097 \<and>
   (\<forall>i<4097. read_data input ! i = (if i < length input then input ! i else 0))"
  using print_info_ok [OF forced_1k_resolves, where input = input and c = c]
  by (simp add: length_concat_sector_rows forced_1k_resolves length_read_data read_data_nth
      blocks_layout data_size_of_def resolve_sectors_def)

theorem forced_1k_any_input_witness:
  "ret (print_info True no_colors [1, 2, 3]) = 0 \<and>
   length (rows_of (stdout (print_info True no_colors [1, 2, 3]))) = 64 \<and>
   (3 :: nat) < 16 \<and> blocks (sector_layout (read_data [1, 2, 3]) 3) = 4 \<and>
   (1 :: nat) < 4097 \<and> read_data [1, 2, 3] ! 1 = 2 \<and>
   (5 :: nat) < 4097 \<and> read_data [1, 2, 3] ! 5 = 0"
proof -
  note t = forced_1k_any_input [of "[1, 2, 3]" no_colors]
  from t have a: "ret (print_info True no_colors [1, 2, 3]) = 0 \<and>
      length (rows_of (stdout (print_info True no_colors [1, 2, 3]))) = 64"
    by blast
  from t have "\<forall>s<16. blocks (sector_layout (read_data [1, 2, 3]) s) = 4"
    by blast
  then have b: "blocks (sector_layout (read_data [1, 2, 3]) 3) = 4"
    by simp
  from t have "\<forall>i<4097. read_data [1, 2, 3] ! i =
      (if i < length [1, 2, 3 :: u8] then [1, 2, 3] ! i else 0)"
    by blast
  then have r: "read_data [1, 2, 3] ! 1 = 2" "read_data [1, 2, 3] ! 5 = 0"
    by simp_all
  show ?thesis
    using a b r by simp
qed

end
